theory Spec2Isabelle
  imports Complex_Main "HOL-Library.Word"
begin

section \<open>Python values used by number.py\<close>

text \<open>
  The module \<^verbatim>\<open>custom_components/tuya_ble/number.py\<close> is embedded function by function.
  A finite Python float is the \<^typ>\<open>real\<close> number it stands for, a Python int is an
  \<^typ>\<open>int\<close>, a \<^verbatim>\<open>bytes\<close> object is a list of 8-bit words. Float arithmetic rounds:
  the product and the quotient of floats are given by \<open>float_round\<close> below. Every exception
  the source can raise is a value of \<open>py_error\<close>, and a function that can raise returns
  \<open>py_error + 'a\<close>.
\<close>

type_synonym byte = "8 word"

datatype py_error =
  IndexError | OverflowError | ValueError | TypeError | AttributeError | NameError
  | ZeroDivisionError

text \<open>\<^verbatim>\<open>int(x)\<close> on a float truncates towards zero.\<close>

definition py_int :: "real \<Rightarrow> int" where
  "py_int x = (if 0 \<le> x then \<lfloor>x\<rfloor> else \<lceil>x\<rceil>)"

text \<open>
  Float multiplication. A Python float is an IEEE 754 binary64 number, and the product of two
  floats is their exact product rounded to the nearest binary64 number, a tie going to the one
  with an even significand; a product too large for the format is an infinity.
  \<open>binary_exponent x\<close> is the \<open>e\<close> with \<open>2^e \<le> |x| < 2^(e+1)\<close>. A binary64 number
  with that exponent is a multiple of \<open>2^(e-52)\<close>, and of \<open>2^(-1074)\<close> below the normal
  range.
\<close>

fun bit_length :: "nat \<Rightarrow> nat" where
  "bit_length n = (if n = 0 then 0 else Suc (bit_length (n div 2)))"

declare bit_length.simps [simp del]

definition binary_exponent :: "real \<Rightarrow> int" where
  "binary_exponent x =
     (if 1 \<le> \<bar>x\<bar> then int (bit_length (nat \<lfloor>\<bar>x\<bar>\<rfloor>)) - 1
      else - int (bit_length (nat (\<lceil>1 / \<bar>x\<bar>\<rceil> - 1))))"

definition pow2 :: "int \<Rightarrow> real" where
  "pow2 e = (if 0 \<le> e then 2 ^ nat e else 1 / 2 ^ nat (- e))"

definition round_half_even :: "real \<Rightarrow> int" where
  "round_half_even x =
     (if x - of_int \<lfloor>x\<rfloor> < 1 / 2 then \<lfloor>x\<rfloor>
      else if 1 / 2 < x - of_int \<lfloor>x\<rfloor> then \<lfloor>x\<rfloor> + 1
      else if even \<lfloor>x\<rfloor> then \<lfloor>x\<rfloor> else \<lfloor>x\<rfloor> + 1)"

datatype float64 = Finite real | PlusInfinity | MinusInfinity

definition float_round :: "real \<Rightarrow> float64" where
  "float_round x =
     (if x = 0 then Finite 0
      else
        let q = max (binary_exponent x) (- 1022) - 52;
            r = of_int (round_half_even (x / pow2 q)) * pow2 q
        in if pow2 1024 \<le> \<bar>r\<bar> then (if 0 < x then PlusInfinity else MinusInfinity)
           else Finite r)"

definition float_mul :: "real \<Rightarrow> real \<Rightarrow> float64" where
  "float_mul a b = float_round (a * b)"

text \<open>\<^verbatim>\<open>int(x)\<close> on a float that may be an infinity: OverflowError on an infinity.\<close>

definition float_int :: "float64 \<Rightarrow> py_error + int" where
  "float_int x =
     (case x of
        Finite r \<Rightarrow> Inr (py_int r)
      | PlusInfinity \<Rightarrow> Inl OverflowError
      | MinusInfinity \<Rightarrow> Inl OverflowError)"

text \<open>\<^verbatim>\<open>int.from_bytes(bs, "big")\<close>: unsigned, most significant byte first; never raises.\<close>

definition from_bytes_big :: "byte list \<Rightarrow> int" where
  "from_bytes_big bs = foldl (\<lambda>acc b. acc * 256 + uint b) 0 bs"

text \<open>
  \<^verbatim>\<open>int.to_bytes(n, 2, "big")\<close>: raises OverflowError for a negative \<open>n\<close> and for an
  \<open>n\<close> that does not fit two bytes.
\<close>

definition to_bytes_2_big :: "int \<Rightarrow> py_error + byte list" where
  "to_bytes_2_big n =
     (if n < 0 \<or> 65536 \<le> n then Inl OverflowError
      else Inr [word_of_int (n div 256), word_of_int (n mod 256)])"

text \<open>\<^verbatim>\<open>bs[i]\<close> on \<^verbatim>\<open>bytes\<close> with a non-negative index: IndexError out of range.\<close>

definition bytes_index :: "byte list \<Rightarrow> nat \<Rightarrow> py_error + byte" where
  "bytes_index bs i = (if i < length bs then Inr (bs ! i) else Inl IndexError)"

text \<open>
  \<^verbatim>\<open>ba[i] = n\<close> on a \<^verbatim>\<open>bytearray\<close>: the value must be in \<^verbatim>\<open>range(256)\<close> (ValueError) and
  the index in range (IndexError). CPython checks the value first.
\<close>

definition bytearray_setitem :: "byte list \<Rightarrow> nat \<Rightarrow> int \<Rightarrow> py_error + byte list" where
  "bytearray_setitem ba i n =
     (if n < 0 \<or> 256 \<le> n then Inl ValueError
      else if i < length ba then Inr (ba[i := word_of_int n])
      else Inl IndexError)"

section \<open>Datapoints, device, product information\<close>

text \<open>
  The classes \<^verbatim>\<open>TuyaBLEDataPoint\<close>, \<^verbatim>\<open>TuyaBLEDataPoints\<close>, \<^verbatim>\<open>TuyaBLEDevice\<close> (tuya\_ble.py) and
  \<^verbatim>\<open>TuyaBLEProductInfo\<close>, \<^verbatim>\<open>TuyaBLEFingerbotInfo\<close>, \<^verbatim>\<open>TuyaBLEEntity\<close> (devices.py) are
  imported by number.py; only the fields and operations number.py uses are kept. A
  datapoint value is an integer or a byte sequence. \<^verbatim>\<open>datapoints[id]\<close> gives the datapoint
  or \<^verbatim>\<open>None\<close>, so the store is a partial map and \<^verbatim>\<open>if datapoint:\<close> tests presence.
\<close>

datatype TuyaBLEDataPointType = DT_RAW | DT_BOOL | DT_VALUE | DT_STRING | DT_ENUM | DT_BITMAP

datatype dp_value = IntV int | BytesV "byte list"

record TuyaBLEDataPoint =
  dp_kind :: TuyaBLEDataPointType
  dp_val :: dp_value

type_synonym TuyaBLEDataPoints = "int \<rightharpoonup> TuyaBLEDataPoint"

record TuyaBLEDevice =
  category :: string
  product_id :: string
  address :: string
  datapoints :: TuyaBLEDataPoints

text \<open>
  \<open>mode\<close> and \<open>program\<close> are datapoint ids; \<open>program\<close> defaults to 0, which Python's
  truth test reads as "not configured".
\<close>

record TuyaBLEFingerbotInfo =
  mode :: int
  program :: int

record TuyaBLEProductInfo =
  fingerbot :: "TuyaBLEFingerbotInfo option"

text \<open>
  \<^verbatim>\<open>self._hass.create_task(datapoint.set_value(v))\<close> schedules a write and returns at once.
  The scheduled writes are kept, in order, as pairs of datapoint id and new value.
\<close>

record HomeAssistant =
  tasks :: "(int \<times> dp_value) list"

text \<open>What \<^verbatim>\<open>self\<close> offers to the module-level predicates and accessors.\<close>

record TuyaBLEEntity =
  hass :: HomeAssistant
  device :: TuyaBLEDevice

definition create_task :: "int \<Rightarrow> dp_value \<Rightarrow> TuyaBLEEntity \<Rightarrow> TuyaBLEEntity" where
  "create_task dp v self = self\<lparr>hass := (hass self)\<lparr>tasks := tasks (hass self) @ [(dp, v)]\<rparr>\<rparr>"

text \<open>
  Modelled from the spec: \<^verbatim>\<open>Datapoint.set_value\<close> of tuya\_ble.py, once the scheduled write has
  run: the datapoint holds the new value.
\<close>

definition complete_write :: "int \<times> dp_value \<Rightarrow> TuyaBLEDevice \<Rightarrow> TuyaBLEDevice" where
  "complete_write w d =
     (case datapoints d (fst w) of
        None \<Rightarrow> d
      | Some p \<Rightarrow> d\<lparr>datapoints := (datapoints d)(fst w \<mapsto> p\<lparr>dp_val := snd w\<rparr>)\<rparr>)"

definition run_tasks :: "TuyaBLEEntity \<Rightarrow> TuyaBLEEntity" where
  "run_tasks self =
     self\<lparr>device := foldl (\<lambda>d w. complete_write w d) (device self) (tasks (hass self)),
          hass := (hass self)\<lparr>tasks := []\<rparr>\<rparr>"

section \<open>Availability predicates\<close>

definition is_fingerbot_in_program_mode :: "TuyaBLEEntity \<Rightarrow> TuyaBLEProductInfo \<Rightarrow> bool" where
  "is_fingerbot_in_program_mode self product =
     (case fingerbot product of
        None \<Rightarrow> True
      | Some fb \<Rightarrow>
          (case datapoints (device self) (mode fb) of
             None \<Rightarrow> True
           | Some datapoint \<Rightarrow> dp_val datapoint = IntV 2))"

definition is_fingerbot_not_in_program_mode :: "TuyaBLEEntity \<Rightarrow> TuyaBLEProductInfo \<Rightarrow> bool" where
  "is_fingerbot_not_in_program_mode self product =
     (case fingerbot product of
        None \<Rightarrow> True
      | Some fb \<Rightarrow>
          (case datapoints (device self) (mode fb) of
             None \<Rightarrow> True
           | Some datapoint \<Rightarrow> dp_val datapoint \<noteq> IntV 2))"

definition is_fingerbot_in_push_mode :: "TuyaBLEEntity \<Rightarrow> TuyaBLEProductInfo \<Rightarrow> bool" where
  "is_fingerbot_in_push_mode self product =
     (case fingerbot product of
        None \<Rightarrow> True
      | Some fb \<Rightarrow>
          (case datapoints (device self) (mode fb) of
             None \<Rightarrow> True
           | Some datapoint \<Rightarrow> dp_val datapoint = IntV 0))"

definition is_fingerbot_repeat_count_available :: "TuyaBLEEntity \<Rightarrow> TuyaBLEProductInfo \<Rightarrow> bool" where
  "is_fingerbot_repeat_count_available self product =
     (case fingerbot product of
        None \<Rightarrow> True
      | Some fb \<Rightarrow>
          if program fb = 0 then True
          else
            let result = (case datapoints (device self) (mode fb) of
                            None \<Rightarrow> True
                          | Some datapoint \<Rightarrow> dp_val datapoint = IntV 2)
            in if result then
                 (case datapoints (device self) (program fb) of
                    None \<Rightarrow> result
                  | Some datapoint \<Rightarrow>
                      (case dp_val datapoint of
                         BytesV bs \<Rightarrow> from_bytes_big (take 2 bs) \<noteq> 0xFFFF
                       | IntV _ \<Rightarrow> result))
               else result)"

section \<open>Composite accessors of the program datapoint\<close>

definition get_fingerbot_program_repeat_count ::
  "TuyaBLEEntity \<Rightarrow> TuyaBLEProductInfo \<Rightarrow> py_error + real option" where
  "get_fingerbot_program_repeat_count self product =
     (case fingerbot product of
        None \<Rightarrow> Inr None
      | Some fb \<Rightarrow>
          if program fb = 0 then Inr None
          else
            (case datapoints (device self) (program fb) of
               None \<Rightarrow> Inr None
             | Some datapoint \<Rightarrow>
                 (case dp_val datapoint of
                    BytesV bs \<Rightarrow> Inr (Some (of_int (from_bytes_big (take 2 bs)) * 1))
                  | IntV _ \<Rightarrow> Inr None)))"

definition set_fingerbot_program_repeat_count ::
  "TuyaBLEEntity \<Rightarrow> TuyaBLEProductInfo \<Rightarrow> real \<Rightarrow> py_error + TuyaBLEEntity" where
  "set_fingerbot_program_repeat_count self product v =
     (case fingerbot product of
        None \<Rightarrow> Inr self
      | Some fb \<Rightarrow>
          if program fb = 0 then Inr self
          else
            (case datapoints (device self) (program fb) of
               None \<Rightarrow> Inr self
             | Some datapoint \<Rightarrow>
                 (case dp_val datapoint of
                    BytesV bs \<Rightarrow>
                      (case to_bytes_2_big (py_int v) of
                         Inl e \<Rightarrow> Inl e
                       | Inr hd2 \<Rightarrow>
                           Inr (create_task (program fb) (BytesV (hd2 @ drop 2 bs)) self))
                  | IntV _ \<Rightarrow> Inr self)))"

definition get_fingerbot_program_position ::
  "TuyaBLEEntity \<Rightarrow> TuyaBLEProductInfo \<Rightarrow> py_error + real option" where
  "get_fingerbot_program_position self product =
     (case fingerbot product of
        None \<Rightarrow> Inr None
      | Some fb \<Rightarrow>
          if program fb = 0 then Inr None
          else
            (case datapoints (device self) (program fb) of
               None \<Rightarrow> Inr None
             | Some datapoint \<Rightarrow>
                 (case dp_val datapoint of
                    BytesV bs \<Rightarrow>
                      (case bytes_index bs 2 of
                         Inl e \<Rightarrow> Inl e
                       | Inr b \<Rightarrow> Inr (Some (of_int (uint b) * 1)))
                  | IntV _ \<Rightarrow> Inr None)))"

definition set_fingerbot_program_position ::
  "TuyaBLEEntity \<Rightarrow> TuyaBLEProductInfo \<Rightarrow> real \<Rightarrow> py_error + TuyaBLEEntity" where
  "set_fingerbot_program_position self product v =
     (case fingerbot product of
        None \<Rightarrow> Inr self
      | Some fb \<Rightarrow>
          if program fb = 0 then Inr self
          else
            (case datapoints (device self) (program fb) of
               None \<Rightarrow> Inr self
             | Some datapoint \<Rightarrow>
                 (case dp_val datapoint of
                    BytesV bs \<Rightarrow>
                      (case bytearray_setitem bs 2 (py_int v) of
                         Inl e \<Rightarrow> Inl e
                       | Inr new_value \<Rightarrow>
                           Inr (create_task (program fb) (BytesV new_value) self))
                  | IntV _ \<Rightarrow> Inr self)))"

section \<open>Control descriptors\<close>

text \<open>
  \<^verbatim>\<open>NumberEntityDescription\<close> and the constants of units, categories and modes come from the
  host framework. A field left out of a constructor call has the value \<^verbatim>\<open>None\<close>.
\<close>

datatype unit_of_measurement =
  PERCENTAGE | SECONDS | MINUTES | CONCENTRATION_PARTS_PER_MILLION | CELSIUS | MILLILITERS

datatype EntityCategory = CONFIG | DIAGNOSTIC

datatype NumberMode = AUTO | BOX | SLIDER

datatype NumberDeviceClass = WATER

record NumberEntityDescription =
  key :: string
  name :: "string option"
  icon :: "string option"
  device_class :: "NumberDeviceClass option"
  native_max_value :: "real option"
  native_min_value :: "real option"
  native_unit_of_measurement :: "unit_of_measurement option"
  native_step :: "real option"
  entity_category :: "EntityCategory option"

definition TuyaBLEDownPositionDescription :: NumberEntityDescription where
  "TuyaBLEDownPositionDescription =
     \<lparr>key = ''down_position'', name = None, icon = Some ''mdi:arrow-down-bold'',
      device_class = None, native_max_value = Some 100, native_min_value = Some 51,
      native_unit_of_measurement = Some PERCENTAGE, native_step = Some 1,
      entity_category = Some CONFIG\<rparr>"

definition TuyaBLEUpPositionDescription :: NumberEntityDescription where
  "TuyaBLEUpPositionDescription =
     \<lparr>key = ''up_position'', name = None, icon = Some ''mdi:arrow-up-bold'',
      device_class = None, native_max_value = Some 50, native_min_value = Some 0,
      native_unit_of_measurement = Some PERCENTAGE, native_step = Some 1,
      entity_category = Some CONFIG\<rparr>"

definition TuyaBLEHoldTimeDescription :: NumberEntityDescription where
  "TuyaBLEHoldTimeDescription =
     \<lparr>key = ''hold_time'', name = None, icon = Some ''mdi:timer'',
      device_class = None, native_max_value = Some 10, native_min_value = Some 0,
      native_unit_of_measurement = Some SECONDS, native_step = Some 1,
      entity_category = Some CONFIG\<rparr>"

type_synonym TuyaBLENumberGetter =
  "(TuyaBLEEntity \<Rightarrow> TuyaBLEProductInfo \<Rightarrow> py_error + real option) option"

type_synonym TuyaBLENumberIsAvailable =
  "(TuyaBLEEntity \<Rightarrow> TuyaBLEProductInfo \<Rightarrow> bool) option"

type_synonym TuyaBLENumberSetter =
  "(TuyaBLEEntity \<Rightarrow> TuyaBLEProductInfo \<Rightarrow> real \<Rightarrow> py_error + TuyaBLEEntity) option"

text \<open>
  The dataclass \<^verbatim>\<open>TuyaBLENumberMapping\<close>. Its field \<^verbatim>\<open>mode\<close> is named \<open>number_mode\<close> here,
  since \<open>mode\<close> is the fingerbot's datapoint id above.
\<close>

record TuyaBLENumberMapping =
  dp_id :: int
  description :: NumberEntityDescription
  force_add :: bool
  dp_type :: "TuyaBLEDataPointType option"
  coefficient :: real
  is_available :: TuyaBLENumberIsAvailable
  getter :: TuyaBLENumberGetter
  setter :: TuyaBLENumberSetter
  number_mode :: NumberMode

text \<open>\<^verbatim>\<open>TuyaBLENumberMapping(dp_id=i, description=d)\<close>: every other field at its default.\<close>

definition TuyaBLENumberMapping_init :: "int \<Rightarrow> NumberEntityDescription \<Rightarrow> TuyaBLENumberMapping" where
  "TuyaBLENumberMapping_init i d =
     \<lparr>dp_id = i, description = d, force_add = True, dp_type = None, coefficient = 1.0,
      is_available = None, getter = None, setter = None, number_mode = BOX\<rparr>"

definition TuyaBLEHoldTimeMapping :: "int \<Rightarrow> TuyaBLENumberMapping" where
  "TuyaBLEHoldTimeMapping i =
     (TuyaBLENumberMapping_init i TuyaBLEHoldTimeDescription)
       \<lparr>is_available := Some is_fingerbot_in_push_mode\<rparr>"

text \<open>
  The dataclass \<^verbatim>\<open>TuyaBLEVirtualNumberMapping\<close>: the same fields without \<^verbatim>\<open>dp_id\<close>,
  \<^verbatim>\<open>dp_type\<close> and \<^verbatim>\<open>coefficient\<close>, and with \<^verbatim>\<open>default_value\<close>. The shared field names carry
  the prefix \<open>v_\<close>.
\<close>

record TuyaBLEVirtualNumberMapping =
  v_description :: NumberEntityDescription
  v_force_add :: bool
  v_is_available :: TuyaBLENumberIsAvailable
  v_getter :: TuyaBLENumberGetter
  v_setter :: TuyaBLENumberSetter
  v_number_mode :: NumberMode
  default_value :: real

definition TuyaBLEVirtualNumberMapping_init :: "NumberEntityDescription \<Rightarrow> TuyaBLEVirtualNumberMapping" where
  "TuyaBLEVirtualNumberMapping_init d =
     \<lparr>v_description = d, v_force_add = True, v_is_available = None, v_getter = None,
      v_setter = None, v_number_mode = BOX, default_value = 3600\<rparr>"

text \<open>
  A product's list holds objects of both classes. Reading an attribute that the object's
  class does not have raises AttributeError.
\<close>

datatype number_mapping =
  NumberMapping TuyaBLENumberMapping
  | VirtualNumberMapping TuyaBLEVirtualNumberMapping

fun mapping_description :: "number_mapping \<Rightarrow> NumberEntityDescription" where
  "mapping_description (NumberMapping m) = description m"
| "mapping_description (VirtualNumberMapping m) = v_description m"

fun mapping_force_add :: "number_mapping \<Rightarrow> bool" where
  "mapping_force_add (NumberMapping m) = force_add m"
| "mapping_force_add (VirtualNumberMapping m) = v_force_add m"

fun mapping_is_available :: "number_mapping \<Rightarrow> TuyaBLENumberIsAvailable" where
  "mapping_is_available (NumberMapping m) = is_available m"
| "mapping_is_available (VirtualNumberMapping m) = v_is_available m"

fun mapping_getter :: "number_mapping \<Rightarrow> TuyaBLENumberGetter" where
  "mapping_getter (NumberMapping m) = getter m"
| "mapping_getter (VirtualNumberMapping m) = v_getter m"

fun mapping_setter :: "number_mapping \<Rightarrow> TuyaBLENumberSetter" where
  "mapping_setter (NumberMapping m) = setter m"
| "mapping_setter (VirtualNumberMapping m) = v_setter m"

fun mapping_dp_id :: "number_mapping \<Rightarrow> py_error + int" where
  "mapping_dp_id (NumberMapping m) = Inr (dp_id m)"
| "mapping_dp_id (VirtualNumberMapping m) = Inl AttributeError"

fun mapping_dp_type :: "number_mapping \<Rightarrow> py_error + TuyaBLEDataPointType option" where
  "mapping_dp_type (NumberMapping m) = Inr (dp_type m)"
| "mapping_dp_type (VirtualNumberMapping m) = Inl AttributeError"

fun mapping_coefficient :: "number_mapping \<Rightarrow> py_error + real" where
  "mapping_coefficient (NumberMapping m) = Inr (coefficient m)"
| "mapping_coefficient (VirtualNumberMapping m) = Inl AttributeError"

record TuyaBLECategoryNumberMapping =
  products :: "(string \<rightharpoonup> number_mapping list) option"
  fallback :: "number_mapping list option" \<comment> \<open>the field \<^verbatim>\<open>mapping\<close> of the source\<close>

section \<open>The registry\<close>

text \<open>
  A dict display is the list of its items in source order; building the dict stores them
  one after the other, so a repeated key keeps its last value.
\<close>

definition py_dict :: "('k \<times> 'v) list \<Rightarrow> ('k \<rightharpoonup> 'v)" where
  "py_dict items = foldl (\<lambda>m kv. m(fst kv \<mapsto> snd kv)) Map.empty items"

definition dict_fromkeys :: "'k list \<Rightarrow> 'v \<Rightarrow> ('k \<times> 'v) list" where
  "dict_fromkeys ks v = map (\<lambda>k. (k, v)) ks"

definition description_of :: "string \<Rightarrow> NumberEntityDescription" where
  "description_of k =
     \<lparr>key = k, name = None, icon = None, device_class = None, native_max_value = None,
      native_min_value = None, native_unit_of_measurement = None, native_step = None,
      entity_category = None\<rparr>"

definition watering_duration :: TuyaBLEVirtualNumberMapping where
  "watering_duration =
     (TuyaBLEVirtualNumberMapping_init
        ((description_of ''watering_duration'')
           \<lparr>name := Some ''Watering Duration'', icon := Some ''mdi:water-timer'',
            native_max_value := Some 86400, native_min_value := Some 60,
            native_unit_of_measurement := Some SECONDS, native_step := Some 60,
            entity_category := Some CONFIG\<rparr>))
       \<lparr>default_value := 900\<rparr>"

definition sfkzq_products :: "(string \<times> number_mapping list) list" where
  "sfkzq_products =
     [(''nxquc5lb'',
       [NumberMapping (TuyaBLENumberMapping_init 9
          ((description_of ''time_use'')
             \<lparr>icon := Some ''mdi:timer'', native_max_value := Some 2592000,
              native_min_value := Some 0, native_unit_of_measurement := Some SECONDS,
              native_step := Some 1, entity_category := Some CONFIG\<rparr>)),
        NumberMapping (TuyaBLENumberMapping_init 11
          ((description_of ''countdown'')
             \<lparr>icon := Some ''mdi:timer-outline'', native_max_value := Some 86400,
              native_min_value := Some 0, native_unit_of_measurement := Some SECONDS,
              native_step := Some 1, entity_category := Some CONFIG\<rparr>)),
        VirtualNumberMapping watering_duration])]"

definition co2bj_products :: "(string \<times> number_mapping list) list" where
  "co2bj_products =
     [(''59s19z5m'',
       [NumberMapping ((TuyaBLENumberMapping_init 17
          ((description_of ''brightness'')
             \<lparr>icon := Some ''mdi:brightness-percent'', native_max_value := Some 100,
              native_min_value := Some 0, native_unit_of_measurement := Some PERCENTAGE,
              native_step := Some 1, entity_category := Some CONFIG\<rparr>))
          \<lparr>number_mode := SLIDER\<rparr>),
        NumberMapping (TuyaBLENumberMapping_init 26
          ((description_of ''carbon_dioxide_alarm_level'')
             \<lparr>icon := Some ''mdi:molecule-co2'', native_max_value := Some 5000,
              native_min_value := Some 400,
              native_unit_of_measurement := Some CONCENTRATION_PARTS_PER_MILLION,
              native_step := Some 100, entity_category := Some CONFIG\<rparr>))])]"

definition program_repeats_count :: "int \<Rightarrow> TuyaBLENumberMapping" where
  "program_repeats_count i =
     (TuyaBLENumberMapping_init i
        ((description_of ''program_repeats_count'')
           \<lparr>icon := Some ''mdi:repeat'', native_max_value := Some 0xFFFE,
            native_min_value := Some 1, native_step := Some 1,
            entity_category := Some CONFIG\<rparr>))
       \<lparr>is_available := Some is_fingerbot_repeat_count_available,
        getter := Some get_fingerbot_program_repeat_count,
        setter := Some set_fingerbot_program_repeat_count\<rparr>"

definition program_idle_position :: "int \<Rightarrow> TuyaBLENumberMapping" where
  "program_idle_position i =
     (TuyaBLENumberMapping_init i
        ((description_of ''program_idle_position'')
           \<lparr>icon := Some ''mdi:repeat'', native_max_value := Some 100,
            native_min_value := Some 0, native_step := Some 1,
            native_unit_of_measurement := Some PERCENTAGE,
            entity_category := Some CONFIG\<rparr>))
       \<lparr>is_available := Some is_fingerbot_in_program_mode,
        getter := Some get_fingerbot_program_position,
        setter := Some set_fingerbot_program_position\<rparr>"

definition szjqr_products :: "(string \<times> number_mapping list) list" where
  "szjqr_products =
     dict_fromkeys [''3yqdo5yt'', ''xhf790if'']
       [NumberMapping (TuyaBLEHoldTimeMapping 3),
        NumberMapping (TuyaBLENumberMapping_init 5
          (TuyaBLEUpPositionDescription\<lparr>native_max_value := Some 100\<rparr>)),
        NumberMapping (TuyaBLENumberMapping_init 6
          (TuyaBLEDownPositionDescription\<lparr>native_min_value := Some 0\<rparr>))]
     @ dict_fromkeys [''blliqpsj'', ''ndvkgsrm'', ''yiihr7zh'', ''neq16kgd'']
       [NumberMapping ((TuyaBLENumberMapping_init 9 TuyaBLEDownPositionDescription)
          \<lparr>is_available := Some is_fingerbot_not_in_program_mode\<rparr>),
        NumberMapping (TuyaBLEHoldTimeMapping 10),
        NumberMapping ((TuyaBLENumberMapping_init 15 TuyaBLEUpPositionDescription)
          \<lparr>is_available := Some is_fingerbot_not_in_program_mode\<rparr>),
        NumberMapping (program_repeats_count 121),
        NumberMapping (program_idle_position 121)]
     @ dict_fromkeys [''ltak7e1p'', ''y6kttvd6'', ''yrnk7mnn'', ''nvr2rocq'', ''bnt7wajf'',
                      ''rvdceqjh'', ''5xhbk964'']
       [NumberMapping ((TuyaBLENumberMapping_init 9 TuyaBLEDownPositionDescription)
          \<lparr>is_available := Some is_fingerbot_not_in_program_mode\<rparr>),
        NumberMapping ((TuyaBLENumberMapping_init 10
          (TuyaBLEHoldTimeDescription\<lparr>native_step := Some 0.1\<rparr>))
          \<lparr>coefficient := 10.0, is_available := Some is_fingerbot_in_push_mode\<rparr>),
        NumberMapping ((TuyaBLENumberMapping_init 15 TuyaBLEUpPositionDescription)
          \<lparr>is_available := Some is_fingerbot_not_in_program_mode\<rparr>)]"

definition kg_products :: "(string \<times> number_mapping list) list" where
  "kg_products =
     dict_fromkeys [''mknd4lci'', ''riecov42'']
       [NumberMapping ((TuyaBLENumberMapping_init 102 TuyaBLEDownPositionDescription)
          \<lparr>is_available := Some is_fingerbot_not_in_program_mode\<rparr>),
        NumberMapping (TuyaBLEHoldTimeMapping 103),
        NumberMapping ((TuyaBLENumberMapping_init 106 TuyaBLEUpPositionDescription)
          \<lparr>is_available := Some is_fingerbot_not_in_program_mode\<rparr>),
        NumberMapping (program_repeats_count 109),
        NumberMapping (program_idle_position 109)]"

definition wk_products :: "(string \<times> number_mapping list) list" where
  "wk_products =
     dict_fromkeys [''drlajpqc'', ''nhj2j7su'', ''zmachryv'']
       [NumberMapping (TuyaBLENumberMapping_init 27
          ((description_of ''temperature_calibration'')
             \<lparr>icon := Some ''mdi:thermometer-lines'', native_max_value := Some 6,
              native_min_value := Some (- 6), native_unit_of_measurement := Some CELSIUS,
              native_step := Some 1, entity_category := Some CONFIG\<rparr>))]"

definition wsdcg_products :: "(string \<times> number_mapping list) list" where
  "wsdcg_products =
     [(''ojzlzzsw'',
       [NumberMapping (TuyaBLENumberMapping_init 17
          ((description_of ''reporting_period'')
             \<lparr>icon := Some ''mdi:timer'', native_max_value := Some 120,
              native_min_value := Some 1, native_unit_of_measurement := Some MINUTES,
              native_step := Some 1, entity_category := Some CONFIG\<rparr>))])]"

definition znhsb_products :: "(string \<times> number_mapping list) list" where
  "znhsb_products =
     [(''cdlandip'',
       [NumberMapping (TuyaBLENumberMapping_init 103
          ((description_of ''recommended_water_intake'')
             \<lparr>device_class := Some WATER, native_max_value := Some 5000,
              native_min_value := Some 0, native_unit_of_measurement := Some MILLILITERS,
              native_step := Some 1, entity_category := Some CONFIG\<rparr>))])]"

definition countdown_description :: "string \<Rightarrow> NumberEntityDescription" where
  "countdown_description k =
     (description_of k)
       \<lparr>icon := Some ''mdi:timer'', native_max_value := Some 1440, native_min_value := Some 1,
        native_unit_of_measurement := Some MINUTES, native_step := Some 1\<rparr>"

definition ggq_products :: "(string \<times> number_mapping list) list" where
  "ggq_products =
     [(''6pahkcau'',
       [NumberMapping (TuyaBLENumberMapping_init 5 (countdown_description ''countdown_duration''))]),
      (''hfgdqhho'',
       [NumberMapping (TuyaBLENumberMapping_init 106
          ((countdown_description ''countdown_duration_1'')\<lparr>name := Some ''CH1 Countdown''\<rparr>)),
        NumberMapping (TuyaBLENumberMapping_init 103
          ((countdown_description ''countdown_duration_2'')\<lparr>name := Some ''CH2 Countdown''\<rparr>))]),
      (''hfgdqhho'',
       [NumberMapping (TuyaBLENumberMapping_init 106 (countdown_description ''countdown_duration_z1'')),
        NumberMapping (TuyaBLENumberMapping_init 103 (countdown_description ''countdown_duration_z2''))])]"

text \<open>\<^verbatim>\<open>TuyaBLECategoryNumberMapping(products={...})\<close>: the fallback list keeps its default.\<close>

definition category_of_products :: "(string \<times> number_mapping list) list \<Rightarrow> TuyaBLECategoryNumberMapping" where
  "category_of_products items = \<lparr>products = Some (py_dict items), fallback = None\<rparr>"

definition mapping_items :: "(string \<times> TuyaBLECategoryNumberMapping) list" where
  "mapping_items =
     [(''sfkzq'', category_of_products sfkzq_products),
      (''co2bj'', category_of_products co2bj_products),
      (''szjqr'', category_of_products szjqr_products),
      (''kg'', category_of_products kg_products),
      (''wk'', category_of_products wk_products),
      (''wsdcg'', category_of_products wsdcg_products),
      (''znhsb'', category_of_products znhsb_products),
      (''ggq'', category_of_products ggq_products)]"

definition mapping :: "string \<rightharpoonup> TuyaBLECategoryNumberMapping" where
  "mapping = py_dict mapping_items"

text \<open>
  \<^verbatim>\<open>get_mapping_by_device\<close> reads the module's table; \<open>get_mapping_by_device_in\<close> is its body
  with the table as a parameter.
\<close>

definition get_mapping_by_device_in ::
  "(string \<rightharpoonup> TuyaBLECategoryNumberMapping) \<Rightarrow> TuyaBLEDevice \<Rightarrow> number_mapping list" where
  "get_mapping_by_device_in table dev =
     (case table (category dev) of
        None \<Rightarrow> []
      | Some cat \<Rightarrow>
          (case products cat of
             None \<Rightarrow> []
           | Some ps \<Rightarrow>
               (case ps (product_id dev) of
                  Some product_mapping \<Rightarrow> product_mapping
                | None \<Rightarrow>
                    (case fallback cat of
                       Some l \<Rightarrow> l
                     | None \<Rightarrow> []))))"

definition get_mapping_by_device :: "TuyaBLEDevice \<Rightarrow> number_mapping list" where
  "get_mapping_by_device dev = get_mapping_by_device_in mapping dev"

section \<open>The datapoint-bound adapter\<close>

text \<open>
  Modelled from the spec: \<^verbatim>\<open>TuyaBLEDataPoints.get_or_create\<close> and \<^verbatim>\<open>has_id\<close> of tuya\_ble.py.
  The first obtains the datapoint, creating it with the given type and value when the store
  does not have it; the second tells whether the store has the id, with the given type when
  a type filter is passed.
\<close>

definition get_or_create ::
  "TuyaBLEDevice \<Rightarrow> int \<Rightarrow> TuyaBLEDataPointType \<Rightarrow> dp_value \<Rightarrow> TuyaBLEDataPoint \<times> TuyaBLEDevice" where
  "get_or_create d i t v =
     (case datapoints d i of
        Some p \<Rightarrow> (p, d)
      | None \<Rightarrow>
          (\<lparr>dp_kind = t, dp_val = v\<rparr>,
           d\<lparr>datapoints := (datapoints d)(i \<mapsto> \<lparr>dp_kind = t, dp_val = v\<rparr>)\<rparr>))"

definition has_id :: "TuyaBLEDevice \<Rightarrow> int \<Rightarrow> TuyaBLEDataPointType option \<Rightarrow> bool" where
  "has_id d i t =
     (case datapoints d i of
        None \<Rightarrow> False
      | Some p \<Rightarrow> (case t of None \<Rightarrow> True | Some ty \<Rightarrow> dp_kind p = ty))"

text \<open>
  An object of class \<^verbatim>\<open>TuyaBLENumber\<close>: \<open>entity\<close> holds \<^verbatim>\<open>_hass\<close> and \<^verbatim>\<open>_device\<close>,
  \<open>entity_product\<close> is \<^verbatim>\<open>_product\<close>, \<open>entity_mapping\<close> is \<^verbatim>\<open>_mapping\<close>.
\<close>

fun mapping_number_mode :: "number_mapping \<Rightarrow> NumberMode" where
  "mapping_number_mode (NumberMapping m) = number_mode m"
| "mapping_number_mode (VirtualNumberMapping m) = v_number_mode m"

record TuyaBLENumber =
  entity :: TuyaBLEEntity
  entity_product :: TuyaBLEProductInfo
  entity_mapping :: number_mapping
  attr_mode :: NumberMode

definition TuyaBLENumber_init ::
  "HomeAssistant \<Rightarrow> TuyaBLEDevice \<Rightarrow> TuyaBLEProductInfo \<Rightarrow> number_mapping \<Rightarrow> TuyaBLENumber" where
  "TuyaBLENumber_init h d p m =
     \<lparr>entity = \<lparr>hass = h, device = d\<rparr>, entity_product = p, entity_mapping = m,
      attr_mode = mapping_number_mode m\<rparr>"

text \<open>
  \<^verbatim>\<open>datapoint.value / self._mapping.coefficient\<close> with an int on the left and a float on
  the right: the int is converted to the nearest float (OverflowError when it is too large
  for one), a zero divisor raises ZeroDivisionError, and the result is the float quotient,
  the exact quotient rounded to the nearest binary64 number, which may be an infinity.
\<close>

definition int_truediv_float :: "int \<Rightarrow> real \<Rightarrow> py_error + float64" where
  "int_truediv_float n c =
     (case float_round (of_int n) of
        Finite a \<Rightarrow> if c = 0 then Inl ZeroDivisionError else Inr (float_round (a / c))
      | PlusInfinity \<Rightarrow> Inl OverflowError
      | MinusInfinity \<Rightarrow> Inl OverflowError)"

text \<open>
  The value returned is a float or \<^verbatim>\<open>None\<close>. What a custom getter returns and the configured
  minimum are finite floats; a byte sequence cannot be divided (TypeError).
\<close>

definition native_value :: "TuyaBLENumber \<Rightarrow> py_error + float64 option" where
  "native_value self =
     (case mapping_getter (entity_mapping self) of
        Some g \<Rightarrow>
          (case g (entity self) (entity_product self) of
             Inl e \<Rightarrow> Inl e
           | Inr r \<Rightarrow> Inr (map_option Finite r))
      | None \<Rightarrow>
          (case mapping_dp_id (entity_mapping self) of
             Inl e \<Rightarrow> Inl e
           | Inr i \<Rightarrow>
               (case datapoints (device (entity self)) i of
                  Some datapoint \<Rightarrow>
                    (case mapping_coefficient (entity_mapping self) of
                       Inl e \<Rightarrow> Inl e
                     | Inr c \<Rightarrow>
                         (case dp_val datapoint of
                            BytesV _ \<Rightarrow> Inl TypeError
                          | IntV n \<Rightarrow>
                              (case int_truediv_float n c of
                                 Inl e \<Rightarrow> Inl e
                               | Inr q \<Rightarrow> Inr (Some q))))
                | None \<Rightarrow>
                    Inr (map_option Finite
                           (native_min_value (mapping_description (entity_mapping self)))))))"

text \<open>
  \<^verbatim>\<open>int(value * self._mapping.coefficient)\<close>: the value and the coefficient are finite
  floats, their product is the float product, which is finite or an infinity (two finite
  factors never give a NaN), and \<^verbatim>\<open>int\<close> truncates it or raises OverflowError.
\<close>

definition set_native_value :: "TuyaBLENumber \<Rightarrow> real \<Rightarrow> py_error + TuyaBLENumber" where
  "set_native_value self v =
     (case mapping_setter (entity_mapping self) of
        Some s \<Rightarrow>
          (case s (entity self) (entity_product self) v of
             Inl e \<Rightarrow> Inl e
           | Inr ent \<Rightarrow> Inr (self\<lparr>entity := ent\<rparr>))
      | None \<Rightarrow>
          (case mapping_coefficient (entity_mapping self) of
             Inl e \<Rightarrow> Inl e
           | Inr c \<Rightarrow>
               (case float_int (float_mul v c) of
                  Inl e \<Rightarrow> Inl e
                | Inr int_value \<Rightarrow>
                    (case mapping_dp_id (entity_mapping self) of
                       Inl e \<Rightarrow> Inl e
                     | Inr i \<Rightarrow>
                         let created =
                               get_or_create (device (entity self)) i DT_VALUE (IntV int_value)
                         in Inr (self\<lparr>entity :=
                                   create_task i (IntV int_value)
                                     ((entity self)\<lparr>device := snd created\<rparr>)\<rparr>)))))"

text \<open>\<open>super_available\<close> is the host framework's \<^verbatim>\<open>super().available\<close>.\<close>

definition available :: "bool \<Rightarrow> TuyaBLENumber \<Rightarrow> bool" where
  "available super_available self =
     (if super_available then
        (case mapping_is_available (entity_mapping self) of
           Some f \<Rightarrow> f (entity self) (entity_product self)
         | None \<Rightarrow> super_available)
      else super_available)"

section \<open>The virtual adapter\<close>

text \<open>
  The names bound in the module's global scope: what its import statements bring in and
  what it defines itself. The module has no \<^verbatim>\<open>import os\<close> and no \<^verbatim>\<open>import json\<close>, and neither
  name is a builtin, so evaluating \<^verbatim>\<open>os\<close> or \<^verbatim>\<open>json\<close> raises NameError.
\<close>

definition module_globals :: "string list" where
  "module_globals =
     [''annotations'', ''dataclass'', ''field'', ''logging'', ''Any'', ''Callable'',
      ''NumberEntityDescription'', ''NumberEntity'', ''RestoreNumber'', ''NumberDeviceClass'',
      ''NumberMode'', ''ConfigEntry'', ''CONCENTRATION_PARTS_PER_MILLION'', ''PERCENTAGE'',
      ''UnitOfVolume'', ''UnitOfTemperature'', ''UnitOfTime'', ''HomeAssistant'', ''callback'',
      ''EntityCategory'', ''AddEntitiesCallback'', ''RestoreEntity'', ''DataUpdateCoordinator'',
      ''DOMAIN'', ''TuyaBLEData'', ''TuyaBLEEntity'', ''TuyaBLEProductInfo'',
      ''TuyaBLEDataPointType'', ''TuyaBLEDevice'', ''_LOGGER'', ''TuyaBLENumberGetter'',
      ''TuyaBLENumberIsAvailable'', ''TuyaBLENumberSetter'', ''TuyaBLENumberMapping'',
      ''is_fingerbot_in_program_mode'', ''is_fingerbot_not_in_program_mode'',
      ''is_fingerbot_in_push_mode'', ''is_fingerbot_repeat_count_available'',
      ''get_fingerbot_program_repeat_count'', ''set_fingerbot_program_repeat_count'',
      ''get_fingerbot_program_position'', ''set_fingerbot_program_position'',
      ''TuyaBLEDownPositionDescription'', ''TuyaBLEUpPositionDescription'',
      ''TuyaBLEHoldTimeDescription'', ''TuyaBLEHoldTimeMapping'',
      ''TuyaBLECategoryNumberMapping'', ''TuyaBLEVirtualNumberMapping'', ''mapping'',
      ''get_mapping_by_device'', ''TuyaBLENumber'', ''TuyaBLEVirtualNumber'',
      ''async_setup_entry'']"

definition load_name :: "string \<Rightarrow> py_error + unit" where
  "load_name n = (if n \<in> set module_globals then Inr () else Inl NameError)"

text \<open>
  The host as the virtual adapter sees it: the last state the host kept for the entity
  (\<^verbatim>\<open>async_get_last_state\<close>), the files of the storage directory with their parsed content
  (\<open>None\<close> for a file that is not JSON), whether a file can be opened for writing, and the
  values published with \<^verbatim>\<open>async_write_ha_state\<close>.
\<close>

datatype json = JNull | JNumber real | JString string | JObject "(string \<times> json) list"

record Host =
  last_state :: "string option"
  config_dir :: string
  storage :: "string \<rightharpoonup> json option"
  writable :: bool
  written_states :: "real list"

record TuyaBLEVirtualNumber =
  virtual_mapping :: TuyaBLEVirtualNumberMapping
  attr_native_value :: real
  attr_unique_id :: string

definition TuyaBLEVirtualNumber_init ::
  "TuyaBLEDevice \<Rightarrow> TuyaBLEVirtualNumberMapping \<Rightarrow> TuyaBLEVirtualNumber" where
  "TuyaBLEVirtualNumber_init d m =
     \<lparr>virtual_mapping = m, attr_native_value = default_value m,
      attr_unique_id = address d @ ''_'' @ key (v_description m)\<rparr>"

definition storage_file :: "Host \<Rightarrow> TuyaBLEVirtualNumber \<Rightarrow> string" where
  "storage_file host self =
     config_dir host @ ''/'' @ ''tuya_ble_virtual_'' @ attr_unique_id self @ ''.json''"

text \<open>
  \<open>py_float\<close> is Python's \<^verbatim>\<open>float\<close> on a string, \<open>None\<close> where it raises ValueError; it is a
  parameter of the functions below.
\<close>

definition restore_last_state ::
  "(string \<Rightarrow> real option) \<Rightarrow> Host \<Rightarrow> TuyaBLEVirtualNumber \<Rightarrow> TuyaBLEVirtualNumber" where
  "restore_last_state py_float host self =
     (case last_state host of
        None \<Rightarrow> self
      | Some st \<Rightarrow>
          if st = ''unknown'' \<or> st = ''unavailable'' then self
          else
            (case py_float st of
               Some x \<Rightarrow> self\<lparr>attr_native_value := x\<rparr>
             | None \<Rightarrow> self\<lparr>attr_native_value := default_value (virtual_mapping self)\<rparr>))"

fun json_float :: "(string \<Rightarrow> real option) \<Rightarrow> json \<Rightarrow> real option" where
  "json_float py_float (JNumber x) = Some x"
| "json_float py_float (JString t) = py_float t"
| "json_float py_float JNull = None"
| "json_float py_float (JObject kvs) = None"

text \<open>
  The \<^verbatim>\<open>try\<close> block that reads the storage file. ValueError, TypeError, JSONDecodeError and
  IOError are caught and ignored; NameError is not among them.
\<close>

definition load_storage_file ::
  "(string \<Rightarrow> real option) \<Rightarrow> Host \<Rightarrow> TuyaBLEVirtualNumber \<Rightarrow> py_error + TuyaBLEVirtualNumber" where
  "load_storage_file py_float host self =
     (case storage host (storage_file host self) of
        None \<Rightarrow> Inr self
      | Some content \<Rightarrow>
          (case load_name ''json'' of
             Inl e \<Rightarrow> Inl e
           | Inr _ \<Rightarrow>
               (case content of
                  Some (JObject kvs) \<Rightarrow>
                    (case py_dict kvs ''value'' of
                       None \<Rightarrow> Inr self
                     | Some j \<Rightarrow>
                         (case json_float py_float j of
                            Some x \<Rightarrow> Inr (self\<lparr>attr_native_value := x\<rparr>)
                          | None \<Rightarrow> Inr self))
                | _ \<Rightarrow> Inr self)))"

text \<open>
  The result is the exception that leaves the method, if any, and the entity as the method
  left it: an exception does not undo the assignments made before it.
\<close>

definition async_added_to_hass ::
  "(string \<Rightarrow> real option) \<Rightarrow> Host \<Rightarrow> TuyaBLEVirtualNumber \<Rightarrow> py_error option \<times> TuyaBLEVirtualNumber" where
  "async_added_to_hass py_float host self =
     (let restored = restore_last_state py_float host self in
      case load_name ''os'' of
        Inl e \<Rightarrow> (Some e, restored)
      | Inr _ \<Rightarrow>
          (case load_storage_file py_float host restored of
             Inl e \<Rightarrow> (Some e, restored)
           | Inr loaded \<Rightarrow> (None, loaded)))"

definition async_set_native_value ::
  "Host \<Rightarrow> TuyaBLEVirtualNumber \<Rightarrow> real \<Rightarrow> py_error option \<times> TuyaBLEVirtualNumber \<times> Host" where
  "async_set_native_value host self v =
     (let self' = self\<lparr>attr_native_value := v\<rparr>;
          host' = host\<lparr>written_states := written_states host @ [v]\<rparr>
      in case load_name ''os'' of
           Inl e \<Rightarrow> (Some e, self', host')
         | Inr _ \<Rightarrow>
             if \<not> writable host' then (None, self', host')
             else
               (case load_name ''json'' of
                  Inl e \<Rightarrow>
                    (Some e, self',
                     host'\<lparr>storage := (storage host')(storage_file host' self' \<mapsto> None)\<rparr>)
                | Inr _ \<Rightarrow>
                    (None, self',
                     host'\<lparr>storage := (storage host')
                        (storage_file host' self' \<mapsto> Some (JObject [(''value'', JNumber v)]))\<rparr>)))"

section \<open>Platform setup\<close>

record TuyaBLEData =
  data_device :: TuyaBLEDevice
  data_product :: TuyaBLEProductInfo

datatype number_entity =
  Number TuyaBLENumber
  | VirtualNumber TuyaBLEVirtualNumber

text \<open>
  The condition of the loop: \<^verbatim>\<open>mapping.force_add or has_id(mapping.dp_id, mapping.dp_type)\<close>;
  the right operand is evaluated only when \<^verbatim>\<open>force_add\<close> is false.
\<close>

definition add_condition :: "TuyaBLEData \<Rightarrow> number_mapping \<Rightarrow> py_error + bool" where
  "add_condition data m =
     (if mapping_force_add m then Inr True
      else
        (case mapping_dp_id m of
           Inl e \<Rightarrow> Inl e
         | Inr i \<Rightarrow>
             (case mapping_dp_type m of
                Inl e \<Rightarrow> Inl e
              | Inr t \<Rightarrow> Inr (has_id (data_device data) i t))))"

fun setup_entities ::
  "HomeAssistant \<Rightarrow> TuyaBLEData \<Rightarrow> number_mapping list \<Rightarrow> py_error + number_entity list" where
  "setup_entities h data [] = Inr []"
| "setup_entities h data (m # ms) =
     (case add_condition data m of
        Inl e \<Rightarrow> Inl e
      | Inr add \<Rightarrow>
          (case setup_entities h data ms of
             Inl e \<Rightarrow> Inl e
           | Inr entities \<Rightarrow>
               Inr ((if add
                     then [Number (TuyaBLENumber_init h (data_device data) (data_product data) m)]
                     else []) @ entities)))"

definition async_setup_entry :: "HomeAssistant \<Rightarrow> TuyaBLEData \<Rightarrow> py_error + number_entity list" where
  "async_setup_entry h data = setup_entities h data (get_mapping_by_device (data_device data))"

section \<open>Specification-side notions and concrete devices\<close>

text \<open>
  The two conditions of "repeat count available" as the specification words them: a
  condition on a datapoint that the device has not reported yet counts as satisfied.
\<close>

definition mode_condition :: "TuyaBLEDataPoint option \<Rightarrow> bool" where
  "mode_condition dp = (case dp of None \<Rightarrow> True | Some d \<Rightarrow> dp_val d = IntV 2)"

definition repeat_count_condition :: "TuyaBLEDataPoint option \<Rightarrow> bool" where
  "repeat_count_condition dp =
     (case dp of
        None \<Rightarrow> True
      | Some d \<Rightarrow>
          (case dp_val d of
             BytesV bs \<Rightarrow> from_bytes_big (take 2 bs) \<noteq> 0xFFFF
           | IntV _ \<Rightarrow> True))"

text \<open>Truncation towards zero, written without \<open>py_int\<close>.\<close>

definition truncate_towards_zero :: "real \<Rightarrow> int" where
  "truncate_towards_zero x = (if x < 0 then - \<lfloor>- x\<rfloor> else \<lfloor>x\<rfloor>)"

text \<open>The writes an adapter call has scheduled, or the exception it raised.\<close>

definition scheduled_writes :: "py_error + TuyaBLENumber \<Rightarrow> py_error + (int \<times> dp_value) list" where
  "scheduled_writes r = (case r of Inl e \<Rightarrow> Inl e | Inr self \<Rightarrow> Inr (tasks (hass (entity self))))"

text \<open>The keys of a descriptor list, and the two keys of the replaced product entry.\<close>

definition descriptor_keys :: "number_mapping list \<Rightarrow> string list" where
  "descriptor_keys l = map (\<lambda>m. key (mapping_description m)) l"

definition descriptor_dp_ids :: "number_mapping list \<Rightarrow> (py_error + int) list" where
  "descriptor_dp_ids l = map mapping_dp_id l"

definition replaced_keys :: "string set" where
  "replaced_keys = {''countdown_duration_1'', ''countdown_duration_2''}"

definition no_replaced :: "(string \<times> number_mapping list) list \<Rightarrow> bool" where
  "no_replaced items = (\<forall>kv \<in> set items. set (descriptor_keys (snd kv)) \<inter> replaced_keys = {})"

text \<open>Devices, products and adapters on which the theorems are instantiated.\<close>

definition device_with :: "string \<Rightarrow> string \<Rightarrow> (int \<times> TuyaBLEDataPoint) list \<Rightarrow> TuyaBLEDevice" where
  "device_with c p dps =
     \<lparr>category = c, product_id = p, address = ''DC:23:4D:AA:BB:CC'', datapoints = map_of dps\<rparr>"

definition fingerbot_plus :: TuyaBLEProductInfo where
  "fingerbot_plus = \<lparr>fingerbot = Some \<lparr>mode = 8, program = 121\<rparr>\<rparr>"

definition fingerbot_basic :: TuyaBLEProductInfo where
  "fingerbot_basic = \<lparr>fingerbot = Some \<lparr>mode = 8, program = 0\<rparr>\<rparr>"

definition entity_with :: "(int \<times> TuyaBLEDataPoint) list \<Rightarrow> TuyaBLEEntity" where
  "entity_with dps = \<lparr>hass = \<lparr>tasks = []\<rparr>, device = device_with ''szjqr'' ''blliqpsj'' dps\<rparr>"

text \<open>The hold-time descriptor of the plain Fingerbot products, the one with coefficient 10.\<close>

definition fingerbot_hold_time :: TuyaBLENumberMapping where
  "fingerbot_hold_time =
     (TuyaBLENumberMapping_init 10 (TuyaBLEHoldTimeDescription\<lparr>native_step := Some 0.1\<rparr>))
       \<lparr>coefficient := 10.0, is_available := Some is_fingerbot_in_push_mode\<rparr>"

definition hold_time_number :: "(int \<times> TuyaBLEDataPoint) list \<Rightarrow> TuyaBLENumber" where
  "hold_time_number dps =
     TuyaBLENumber_init \<lparr>tasks = []\<rparr> (device_with ''szjqr'' ''ltak7e1p'' dps) fingerbot_basic
       (NumberMapping fingerbot_hold_time)"

text \<open>A table with one category that has both a product map and a fallback list.\<close>

definition sample_table :: "string \<rightharpoonup> TuyaBLECategoryNumberMapping" where
  "sample_table =
     py_dict [(''szjqr'',
               \<lparr>products = Some (py_dict [(''3yqdo5yt'', [NumberMapping (TuyaBLEHoldTimeMapping 3)])]),
                fallback = Some [NumberMapping (TuyaBLEHoldTimeMapping 10)]\<rparr>)]"

definition water_valve :: TuyaBLEData where
  "water_valve =
     \<lparr>data_device = device_with ''sfkzq'' ''nxquc5lb'' [],
      data_product = \<lparr>fingerbot = None\<rparr>\<rparr>"

definition valve_host :: "(string \<rightharpoonup> json option) \<Rightarrow> Host" where
  "valve_host files =
     \<lparr>last_state = None, config_dir = ''/config/.storage'', storage = files, writable = True,
      written_states = []\<rparr>"

definition valve_number :: TuyaBLEVirtualNumber where
  "valve_number = TuyaBLEVirtualNumber_init (data_device water_valve) watering_duration"

section \<open>Bytes and scheduled writes\<close>

lemma to_bytes_2_big_roundtrip:
  assumes "0 \<le> n" "n < 65536"
  shows "\<exists>hd2. to_bytes_2_big n = Inr hd2 \<and> length hd2 = 2 \<and> from_bytes_big hd2 = n"
proof -
  have d: "0 \<le> n div 256" "n div 256 < 256" using assms by auto
  have m: "0 \<le> n mod 256" "n mod 256 < 256" by auto
  have "uint (word_of_int (n div 256) :: byte) = n div 256"
    using d by (simp add: uint_word_of_int take_bit_int_eq_self)
  moreover have "uint (word_of_int (n mod 256) :: byte) = n mod 256"
    using m by (simp add: uint_word_of_int take_bit_int_eq_self)
  ultimately show ?thesis using assms
    by (simp add: to_bytes_2_big_def from_bytes_big_def)
qed

lemma py_int_of_int: "py_int (of_int n) = n"
  by (simp add: py_int_def)

lemma py_int_truncates: "py_int x = truncate_towards_zero x"
  by (auto simp: py_int_def truncate_towards_zero_def ceiling_def)

lemma create_task_fields:
  "tasks (hass (create_task k v self)) = tasks (hass self) @ [(k, v)]"
  "device (create_task k v self) = device self"
  by (simp_all add: create_task_def)

lemma complete_write_dom: "dom (datapoints (complete_write w d)) = dom (datapoints d)"
  by (auto simp: complete_write_def split: option.splits)

lemma foldl_complete_write_dom:
  "dom (datapoints (foldl (\<lambda>d w. complete_write w d) d ws)) = dom (datapoints d)"
  by (induction ws arbitrary: d) (simp_all add: complete_write_dom)

text \<open>Once the scheduled writes have run, a datapoint holds the value of its last write.\<close>

lemma run_tasks_last:
  assumes "k \<in> dom (datapoints (device self))"
    and "tasks (hass self) = ws @ [(k, v)]"
  shows "\<exists>p. datapoints (device (run_tasks self)) k = Some p \<and> dp_val p = v"
proof -
  let ?d = "foldl (\<lambda>d w. complete_write w d) (device self) ws"
  have "k \<in> dom (datapoints ?d)" using assms(1) by (simp add: foldl_complete_write_dom)
  then obtain p where p: "datapoints ?d k = Some p" by auto
  then show ?thesis using assms(2)
    by (simp add: run_tasks_def complete_write_def)
qed

lemma set_repeat_count_bytes:
  assumes "fingerbot product = Some fb" "program fb \<noteq> 0"
    and "datapoints (device self) (program fb) = Some d" "dp_val d = BytesV bs"
    and "to_bytes_2_big (py_int v) = Inr hd2"
  shows "set_fingerbot_program_repeat_count self product v =
           Inr (create_task (program fb) (BytesV (hd2 @ drop 2 bs)) self)"
  using assms by (simp add: set_fingerbot_program_repeat_count_def)

lemma get_repeat_count_bytes:
  assumes "fingerbot product = Some fb" "program fb \<noteq> 0"
    and "datapoints (device self) (program fb) = Some d" "dp_val d = BytesV bs"
  shows "get_fingerbot_program_repeat_count self product =
           Inr (Some (of_int (from_bytes_big (take 2 bs))))"
  using assms by (simp add: get_fingerbot_program_repeat_count_def)

lemma set_position_bytes:
  assumes "fingerbot product = Some fb" "program fb \<noteq> 0"
    and "datapoints (device self) (program fb) = Some d" "dp_val d = BytesV bs"
  shows "set_fingerbot_program_position self product v =
           (case bytearray_setitem bs 2 (py_int v) of
              Inl e \<Rightarrow> Inl e
            | Inr new_value \<Rightarrow> Inr (create_task (program fb) (BytesV new_value) self))"
  using assms by (simp add: set_fingerbot_program_position_def)

lemma fingerbot_plus_fields:
  "fingerbot fingerbot_plus = Some \<lparr>mode = 8, program = 121\<rparr>"
  "program \<lparr>mode = 8, program = 121\<rparr> \<noteq> 0"
  by (simp_all add: fingerbot_plus_def)

lemma entity_with_fields:
  "datapoints (device (entity_with dps)) = map_of dps"
  "tasks (hass (entity_with dps)) = []"
  by (simp_all add: entity_with_def device_with_def)

section \<open>Repeat-count availability\<close>

text \<open>
  Claim C1. For a fingerbot product whose program datapoint is configured,
  \<open>is_fingerbot_repeat_count_available\<close> is true exactly when the mode condition and the
  repeat-count condition both hold: the mode datapoint is absent or holds 2, and the program
  datapoint is absent or its bytes [0:2], read big-endian, are not 0xFFFF. (A program
  datapoint that holds no byte sequence is treated as satisfied too.)
\<close>

theorem C1_repeat_count_available:
  assumes "fingerbot product = Some fb" and "program fb \<noteq> 0"
  shows "is_fingerbot_repeat_count_available self product =
           (mode_condition (datapoints (device self) (mode fb)) \<and>
            repeat_count_condition (datapoints (device self) (program fb)))"
  using assms
  by (auto simp: is_fingerbot_repeat_count_available_def mode_condition_def
        repeat_count_condition_def Let_def split: option.splits dp_value.splits)

text \<open>
  With mode 2, the program bytes FF FF 05 give false and the bytes 00 05 05 give true; a
  device that has reported neither datapoint gives true.
\<close>

theorem C1_witness:
  "\<not> is_fingerbot_repeat_count_available
       (entity_with [(8, \<lparr>dp_kind = DT_ENUM, dp_val = IntV 2\<rparr>),
                     (121, \<lparr>dp_kind = DT_RAW, dp_val = BytesV [0xFF, 0xFF, 0x05]\<rparr>)])
       fingerbot_plus
   \<and> is_fingerbot_repeat_count_available
       (entity_with [(8, \<lparr>dp_kind = DT_ENUM, dp_val = IntV 2\<rparr>),
                     (121, \<lparr>dp_kind = DT_RAW, dp_val = BytesV [0x00, 0x05, 0x05]\<rparr>)])
       fingerbot_plus
   \<and> is_fingerbot_repeat_count_available (entity_with []) fingerbot_plus"
  using C1_repeat_count_available [OF fingerbot_plus_fields]
  by (simp add: entity_with_fields mode_condition_def repeat_count_condition_def
        from_bytes_big_def)

section \<open>The encoders keep the other bytes\<close>

text \<open>
  Claim C3 as stated fails: on a program payload of two bytes the idle-position encoder
  raises IndexError and schedules no write.
\<close>

theorem C3_counterexample:
  "set_fingerbot_program_position
     (entity_with [(121, \<lparr>dp_kind = DT_RAW, dp_val = BytesV [0x00, 0x05]\<rparr>)])
     fingerbot_plus 37 = Inl IndexError"
  by (simp add: set_fingerbot_program_position_def fingerbot_plus_def entity_with_fields
        bytearray_setitem_def py_int_def)

text \<open>
  Claim C3, amended. For a program payload \<open>bs\<close> that is a byte sequence: when the integer
  part of the value fits two bytes, the repeat-count encoder schedules exactly one write, of
  a byte sequence whose bytes from offset 2 onward are those of \<open>bs\<close>; when \<open>bs\<close> has at
  least three bytes and the integer part of the value is a byte, the idle-position encoder
  schedules exactly one write, of a byte sequence of the same length that holds the new
  value at index 2 and agrees with \<open>bs\<close> at every other index.
\<close>

theorem C3_encoders_preserve_other_bytes:
  assumes "fingerbot product = Some fb" and "program fb \<noteq> 0"
    and "datapoints (device self) (program fb) = Some d" and "dp_val d = BytesV bs"
  shows "(0 \<le> py_int v \<and> py_int v < 65536 \<longrightarrow>
            (\<exists>new_value.
               set_fingerbot_program_repeat_count self product v =
                 Inr (create_task (program fb) (BytesV new_value) self) \<and>
               length new_value = 2 + (length bs - 2) \<and>
               drop 2 new_value = drop 2 bs)) \<and>
         (3 \<le> length bs \<and> 0 \<le> py_int v \<and> py_int v < 256 \<longrightarrow>
            (\<exists>new_value.
               set_fingerbot_program_position self product v =
                 Inr (create_task (program fb) (BytesV new_value) self) \<and>
               length new_value = length bs \<and>
               new_value ! 2 = word_of_int (py_int v) \<and>
               (\<forall>i < length bs. i \<noteq> 2 \<longrightarrow> new_value ! i = bs ! i)))"
proof (intro conjI impI)
  assume r: "0 \<le> py_int v \<and> py_int v < 65536"
  then obtain hd2 where h: "to_bytes_2_big (py_int v) = Inr hd2" "length hd2 = 2"
    using to_bytes_2_big_roundtrip by blast
  have "set_fingerbot_program_repeat_count self product v =
          Inr (create_task (program fb) (BytesV (hd2 @ drop 2 bs)) self)"
    using assms h(1) by (rule set_repeat_count_bytes)
  moreover have "length (hd2 @ drop 2 bs) = 2 + (length bs - 2)" using h(2) by simp
  moreover have "drop 2 (hd2 @ drop 2 bs) = drop 2 bs" using h(2) by simp
  ultimately show "\<exists>new_value.
       set_fingerbot_program_repeat_count self product v =
         Inr (create_task (program fb) (BytesV new_value) self) \<and>
       length new_value = 2 + (length bs - 2) \<and> drop 2 new_value = drop 2 bs"
    by blast
next
  assume p: "3 \<le> length bs \<and> 0 \<le> py_int v \<and> py_int v < 256"
  let ?new = "bs[2 := word_of_int (py_int v)]"
  have "bytearray_setitem bs 2 (py_int v) = Inr ?new"
    using p by (simp add: bytearray_setitem_def)
  then have "set_fingerbot_program_position self product v =
          Inr (create_task (program fb) (BytesV ?new) self)"
    using set_position_bytes [OF assms, of v] by simp
  moreover have "length ?new = length bs" by simp
  moreover have "?new ! 2 = word_of_int (py_int v)" using p by simp
  moreover have "\<forall>i < length bs. i \<noteq> 2 \<longrightarrow> ?new ! i = bs ! i" by simp
  ultimately show "\<exists>new_value.
       set_fingerbot_program_position self product v =
         Inr (create_task (program fb) (BytesV new_value) self) \<and>
       length new_value = length bs \<and>
       new_value ! 2 = word_of_int (py_int v) \<and>
       (\<forall>i < length bs. i \<noteq> 2 \<longrightarrow> new_value ! i = bs ! i)"
    by blast
qed

text \<open>On the payload 00 05 05 09: position 37 gives 00 05 25 09, repeat count 1000 gives 03 E8 05 09.\<close>

theorem C3_witness:
  "set_fingerbot_program_position
     (entity_with [(121, \<lparr>dp_kind = DT_RAW, dp_val = BytesV [0x00, 0x05, 0x05, 0x09]\<rparr>)])
     fingerbot_plus 37
   = Inr (create_task 121 (BytesV [0x00, 0x05, 37, 0x09])
       (entity_with [(121, \<lparr>dp_kind = DT_RAW, dp_val = BytesV [0x00, 0x05, 0x05, 0x09]\<rparr>)]))
   \<and> set_fingerbot_program_repeat_count
     (entity_with [(121, \<lparr>dp_kind = DT_RAW, dp_val = BytesV [0x00, 0x05, 0x05, 0x09]\<rparr>)])
     fingerbot_plus 1000
   = Inr (create_task 121 (BytesV [0x03, 0xE8, 0x05, 0x09])
       (entity_with [(121, \<lparr>dp_kind = DT_RAW, dp_val = BytesV [0x00, 0x05, 0x05, 0x09]\<rparr>)]))"
proof -
  let ?self = "entity_with [(121, \<lparr>dp_kind = DT_RAW, dp_val = BytesV [0x00, 0x05, 0x05, 0x09]\<rparr>)]"
  have c: "datapoints (device ?self) (program \<lparr>mode = 8, program = 121\<rparr>)
             = Some \<lparr>dp_kind = DT_RAW, dp_val = BytesV [0x00, 0x05, 0x05, 0x09]\<rparr>"
    by (simp add: entity_with_fields)
  have d: "dp_val \<lparr>dp_kind = DT_RAW, dp_val = BytesV [0x00, 0x05, 0x05, 0x09]\<rparr>
             = BytesV [0x00, 0x05, 0x05, 0x09]" by simp
  have p37: "py_int 37 = 37" and p1000: "py_int 1000 = 1000" by (simp_all add: py_int_def)
  from C3_encoders_preserve_other_bytes [OF fingerbot_plus_fields c d, of 37]
  obtain n1 where n1: "set_fingerbot_program_position ?self fingerbot_plus 37
        = Inr (create_task 121 (BytesV n1) ?self)"
      "length n1 = 4" "n1 ! 2 = 37" "\<forall>i<4. i \<noteq> 2 \<longrightarrow> n1 ! i = [0x00, 0x05, 0x05, 0x09] ! i"
    by (auto simp: p37)
  have "n1 = [0x00, 0x05, 37, 0x09]"
    using n1(2,3,4) by (auto simp: list_eq_iff_nth_eq less_Suc_eq numeral_eq_Suc)
  with n1(1) have P: "set_fingerbot_program_position ?self fingerbot_plus 37
        = Inr (create_task 121 (BytesV [0x00, 0x05, 37, 0x09]) ?self)" by simp
  have Q: "set_fingerbot_program_repeat_count ?self fingerbot_plus 1000
        = Inr (create_task 121 (BytesV [0x03, 0xE8, 0x05, 0x09]) ?self)"
    by (simp add: set_fingerbot_program_repeat_count_def fingerbot_plus_def entity_with_fields
        to_bytes_2_big_def p1000)
  show ?thesis using P Q by simp
qed

section \<open>Repeat count: encode, then decode\<close>

text \<open>
  Claim C4. For a program payload \<open>bs\<close> of at least two bytes and an integer \<open>n\<close> from 1 to
  0xFFFE: the repeat-count setter succeeds; once its write has run, the program datapoint
  holds a byte sequence of the same length whose bytes from offset 2 onward are those of
  \<open>bs\<close>, and the repeat-count getter returns \<open>n\<close>. The value 1000 is one such \<open>n\<close>.
\<close>

theorem C4_repeat_count_roundtrip:
  assumes "fingerbot product = Some fb" and "program fb \<noteq> 0"
    and "datapoints (device self) (program fb) = Some d" and "dp_val d = BytesV bs"
    and "2 \<le> length bs" and "1 \<le> n" and "n \<le> 0xFFFE"
  shows "\<exists>self' d' bs'.
           set_fingerbot_program_repeat_count self product (of_int n) = Inr self' \<and>
           datapoints (device (run_tasks self')) (program fb) = Some d' \<and>
           dp_val d' = BytesV bs' \<and>
           length bs' = length bs \<and>
           drop 2 bs' = drop 2 bs \<and>
           get_fingerbot_program_repeat_count (run_tasks self') product = Inr (Some (of_int n))"
proof -
  have "0 \<le> n" "n < 65536" using assms(6,7) by simp_all
  then obtain hd2 where h: "to_bytes_2_big n = Inr hd2" "length hd2 = 2" "from_bytes_big hd2 = n"
    using to_bytes_2_big_roundtrip by blast
  let ?bs' = "hd2 @ drop 2 bs"
  let ?self' = "create_task (program fb) (BytesV ?bs') self"
  have s: "set_fingerbot_program_repeat_count self product (of_int n) = Inr ?self'"
    using assms(1-4) h(1) by (simp add: set_fingerbot_program_repeat_count_def py_int_of_int)
  have "program fb \<in> dom (datapoints (device ?self'))"
    using assms(3) by (auto simp: create_task_fields)
  then obtain d' where d': "datapoints (device (run_tasks ?self')) (program fb) = Some d'"
      "dp_val d' = BytesV ?bs'"
    using run_tasks_last [of "program fb" ?self' "tasks (hass self)" "BytesV ?bs'"]
    by (auto simp: create_task_fields)
  have t: "take 2 ?bs' = hd2" using h(2) by simp
  have g: "get_fingerbot_program_repeat_count (run_tasks ?self') product = Inr (Some (of_int n))"
    using get_repeat_count_bytes [OF assms(1,2) d'] t h(3) by simp
  have l: "length ?bs' = length bs" using h(2) assms(5) by simp
  have dr: "drop 2 ?bs' = drop 2 bs" using h(2) by simp
  show ?thesis using s d' g l dr by blast
qed

theorem C4_witness:
  "\<exists>self'. set_fingerbot_program_repeat_count
       (entity_with [(121, \<lparr>dp_kind = DT_RAW, dp_val = BytesV [0x00, 0x05, 0x05, 0x09]\<rparr>)])
       fingerbot_plus 1000 = Inr self' \<and>
     get_fingerbot_program_repeat_count (run_tasks self') fingerbot_plus = Inr (Some 1000)"
proof -
  let ?self = "entity_with [(121, \<lparr>dp_kind = DT_RAW, dp_val = BytesV [0x00, 0x05, 0x05, 0x09]\<rparr>)]"
  have c: "datapoints (device ?self) (program \<lparr>mode = 8, program = 121\<rparr>)
             = Some \<lparr>dp_kind = DT_RAW, dp_val = BytesV [0x00, 0x05, 0x05, 0x09]\<rparr>"
    by (simp add: entity_with_fields)
  have d: "dp_val \<lparr>dp_kind = DT_RAW, dp_val = BytesV [0x00, 0x05, 0x05, 0x09]\<rparr>
             = BytesV [0x00, 0x05, 0x05, 0x09]" by simp
  have e: "2 \<le> length [0x00, 0x05, 0x05, 0x09 :: byte]" by simp
  have f: "(1::int) \<le> 1000" "(1000::int) \<le> 0xFFFE" by simp_all
  from C4_repeat_count_roundtrip [OF fingerbot_plus_fields c d e f]
  show ?thesis by auto
qed

section \<open>Payloads that are too short\<close>

text \<open>
  Claim C7 does not hold of the code: the idle-position getter and setter check that the
  payload is a byte sequence but not that it has a byte at index 2. On a program payload of
  two bytes the getter raises IndexError, and on an empty payload the setter does.
\<close>

theorem C7_position_accessors_raise:
  "get_fingerbot_program_position
     (entity_with [(121, \<lparr>dp_kind = DT_RAW, dp_val = BytesV [0x00, 0x05]\<rparr>)])
     fingerbot_plus = Inl IndexError
   \<and> set_fingerbot_program_position
     (entity_with [(121, \<lparr>dp_kind = DT_RAW, dp_val = BytesV []\<rparr>)])
     fingerbot_plus 50 = Inl IndexError"
  by (simp add: get_fingerbot_program_position_def set_fingerbot_program_position_def
        entity_with_fields fingerbot_plus_def bytes_index_def bytearray_setitem_def py_int_def)

section \<open>Float rounding\<close>

text \<open>
  \<open>binary_exponent x\<close> is the exponent of \<open>x\<close>: \<open>2^e \<le> |x| < 2^(e+1)\<close>. An integer below
  \<open>2^53\<close> in magnitude is a binary64 number, so converting it to a float changes nothing.
  A finite result of \<open>float_round\<close> is within half a unit in the last place of the number
  rounded.
\<close>

lemma bit_length_le: "n < 2 ^ k \<Longrightarrow> bit_length n \<le> k"
proof (induction k arbitrary: n)
  case 0
  then show ?case by (simp add: bit_length.simps)
next
  case (Suc k)
  have "n div 2 < 2 ^ k" using Suc.prems by auto
  then have "bit_length (n div 2) \<le> k" by (rule Suc.IH)
  then show ?case by (subst bit_length.simps) simp
qed

lemma bit_length_pos: "0 < n \<Longrightarrow> 0 < bit_length n"
  by (subst bit_length.simps) simp

lemma round_half_even_of_int: "round_half_even (of_int j) = j"
  by (simp add: round_half_even_def)

lemma pow2_pos: "0 < pow2 e"
  by (simp add: pow2_def)

lemma pow2_nonpos: "e \<le> 0 \<Longrightarrow> pow2 e = 1 / 2 ^ nat (- e)"
  by (auto simp: pow2_def)

lemma bit_length_bounds:
  "0 < n \<Longrightarrow> 2 ^ (bit_length n - 1) \<le> n \<and> n < 2 ^ bit_length n"
proof (induction n rule: bit_length.induct)
  case (1 n)
  show ?case
  proof (cases "n div 2 = 0")
    case True
    then have "n = 1" using "1.prems" by auto
    then show ?thesis by (simp add: bit_length.simps)
  next
    case False
    then have pos: "0 < n div 2" by simp
    have n0: "n \<noteq> 0" using "1.prems" by simp
    from "1.IH" [OF n0 pos]
    have ih: "2 ^ (bit_length (n div 2) - 1) \<le> n div 2" "n div 2 < 2 ^ bit_length (n div 2)"
      by simp_all
    have bl: "bit_length n = Suc (bit_length (n div 2))"
      using n0 by (subst bit_length.simps) simp
    have bp: "0 < bit_length (n div 2)" using pos by (rule bit_length_pos)
    then obtain j where j: "bit_length (n div 2) = Suc j" by (cases "bit_length (n div 2)") auto
    have "2 * 2 ^ j \<le> 2 * (n div 2)" using ih(1) j by simp
    also have "\<dots> \<le> n" by simp
    finally have lo: "2 ^ (bit_length n - 1) \<le> n" by (simp add: bl j)
    have "n div 2 + 1 \<le> 2 ^ bit_length (n div 2)" using ih(2) by simp
    then have "2 * (n div 2) + 2 \<le> 2 * 2 ^ bit_length (n div 2)" by simp
    moreover have "n < 2 * (n div 2) + 2" by presburger
    ultimately have hi: "n < 2 ^ bit_length n" by (simp add: bl)
    show ?thesis using lo hi by simp
  qed
qed

lemma pow2_nat: "pow2 (int k) = 2 ^ k"
  by (simp add: pow2_def)

lemma pow2_neg_nat: "pow2 (- int k) = 1 / 2 ^ k"
  using pow2_nonpos [of "- int k"] by simp

lemma binary_exponent_bounds:
  assumes "x \<noteq> 0"
  shows "pow2 (binary_exponent x) \<le> \<bar>x\<bar> \<and> \<bar>x\<bar> < pow2 (binary_exponent x + 1)"
proof (cases "1 \<le> \<bar>x\<bar>")
  case True
  define N where "N = nat \<lfloor>\<bar>x\<bar>\<rfloor>"
  define b where "b = bit_length N"
  have N1: "0 < N" using True by (simp add: N_def)
  have Nx: "real N \<le> \<bar>x\<bar>" "\<bar>x\<bar> < real N + 1"
    unfolding N_def using True by (simp_all add: of_nat_nat) (linarith+)?
  from bit_length_bounds [OF N1] have bb: "2 ^ (b - 1) \<le> N" "N < 2 ^ b" by (simp_all add: b_def)
  have b1: "0 < b" unfolding b_def using N1 by (rule bit_length_pos)
  have e: "binary_exponent x = int (b - 1)"
    using True b1 by (simp add: binary_exponent_def N_def b_def)
  have e1: "binary_exponent x + 1 = int b" using e b1 by simp
  have lo: "(2::real) ^ (b - 1) \<le> \<bar>x\<bar>"
  proof -
    have "(2::real) ^ (b - 1) = real (2 ^ (b - 1))" by simp
    also have "\<dots> \<le> real N" using bb(1) by (simp only: of_nat_le_iff)
    also have "\<dots> \<le> \<bar>x\<bar>" by (rule Nx(1))
    finally show ?thesis .
  qed
  have hi: "\<bar>x\<bar> < (2::real) ^ b"
  proof -
    have "N + 1 \<le> 2 ^ b" using bb(2) by simp
    then have "real (N + 1) \<le> real (2 ^ b)" by (simp only: of_nat_le_iff)
    moreover have "real (N + 1) = real N + 1" "real (2 ^ b) = (2::real) ^ b" by simp_all
    ultimately have "real N + 1 \<le> (2::real) ^ b" by simp
    with Nx(2) show ?thesis by linarith
  qed
  have "pow2 (binary_exponent x) = 2 ^ (b - 1)" by (simp only: e pow2_nat)
  moreover have "pow2 (binary_exponent x + 1) = 2 ^ b" by (simp only: e1 pow2_nat)
  ultimately show ?thesis using lo hi by simp
next
  case False
  define y where "y = 1 / \<bar>x\<bar>"
  define M where "M = nat (\<lceil>y\<rceil> - 1)"
  define b where "b = bit_length M"
  have x0: "0 < \<bar>x\<bar>" using assms by simp
  have y1: "1 < y" using False x0 by (simp add: y_def)
  have c2: "2 \<le> \<lceil>y\<rceil>" using y1 by linarith
  have M1: "0 < M" using c2 by (simp add: M_def)
  have My: "real M < y" "y \<le> real M + 1"
    unfolding M_def using c2 by (simp_all add: of_nat_nat) (linarith+)?
  from bit_length_bounds [OF M1] have bb: "2 ^ (b - 1) \<le> M" "M < 2 ^ b" by (simp_all add: b_def)
  have b1: "0 < b" unfolding b_def using M1 by (rule bit_length_pos)
  have e: "binary_exponent x = - int b"
    using False by (simp add: binary_exponent_def M_def b_def y_def)
  have e1: "binary_exponent x + 1 = - int (b - 1)" using e b1 by simp
  have lo: "(2::real) ^ (b - 1) < y"
  proof -
    have "(2::real) ^ (b - 1) = real (2 ^ (b - 1))" by simp
    also have "\<dots> \<le> real M" using bb(1) by (simp only: of_nat_le_iff)
    also have "\<dots> < y" by (rule My(1))
    finally show ?thesis .
  qed
  have hi: "y \<le> (2::real) ^ b"
  proof -
    have "M + 1 \<le> 2 ^ b" using bb(2) by simp
    then have "real (M + 1) \<le> real (2 ^ b)" by (simp only: of_nat_le_iff)
    moreover have "real (M + 1) = real M + 1" "real (2 ^ b) = (2::real) ^ b" by simp_all
    ultimately have "real M + 1 \<le> (2::real) ^ b" by simp
    with My(2) show ?thesis by linarith
  qed
  have xy: "\<bar>x\<bar> = 1 / y" using x0 by (simp add: y_def)
  have y0: "0 < y" using y1 by simp
  have A: "1 / 2 ^ b \<le> \<bar>x\<bar>"
    unfolding xy using hi y0 by (intro frac_le) simp_all
  have B: "\<bar>x\<bar> < 1 / 2 ^ (b - 1)"
    unfolding xy using lo by (intro frac_less2) simp_all
  have "pow2 (binary_exponent x) = 1 / 2 ^ b" by (simp only: e pow2_neg_nat)
  moreover have "pow2 (binary_exponent x + 1) = 1 / 2 ^ (b - 1)" by (simp only: e1 pow2_neg_nat)
  ultimately show ?thesis using A B by simp
qed

lemma float_round_of_int:
  assumes "\<bar>n\<bar> < 2 ^ 53"
  shows "float_round (of_int n) = Finite (of_int n)"
proof (cases "n = 0")
  case True
  then show ?thesis by (simp add: float_round_def)
next
  case False
  define b where "b = bit_length (nat \<bar>n\<bar>)"
  define k where "k = 53 - b"
  have ge1: "1 \<le> \<bar>real_of_int n\<bar>" using False by linarith
  have fl: "\<lfloor>\<bar>real_of_int n\<bar>\<rfloor> = \<bar>n\<bar>"
    by (metis floor_of_int of_int_abs)
  have e: "binary_exponent (of_int n) = int b - 1"
    using ge1 fl by (simp add: binary_exponent_def b_def)
  have "nat \<bar>n\<bar> < 2 ^ 53" using assms by (simp add: nat_less_iff)
  then have b53: "b \<le> 53" unfolding b_def by (rule bit_length_le)
  have b1: "0 < b" unfolding b_def using False by (intro bit_length_pos) simp
  have mx: "max (binary_exponent (of_int n)) (- 1022) - 52 = - int k"
    using e b1 b53 by (simp add: k_def)
  have p: "pow2 (- int k) = 1 / 2 ^ k"
    using pow2_nonpos [of "- int k"] by simp
  have "real_of_int n / pow2 (- int k) = of_int (n * 2 ^ k)" by (simp add: p)
  then have rh: "round_half_even (real_of_int n / pow2 (- int k)) = n * 2 ^ k"
    by (simp only: round_half_even_of_int)
  have r: "of_int (round_half_even (real_of_int n / pow2 (- int k))) * pow2 (- int k)
             = real_of_int n"
    by (simp only: rh) (simp add: p)
  have "\<bar>real_of_int n\<bar> < 2 ^ 53" using assms
    by (metis of_int_abs of_int_less_numeral_power_cancel_iff)
  also have "(2::real) ^ 53 \<le> 2 ^ 1024" by (rule power_increasing) simp_all
  finally have small: "\<not> pow2 1024 \<le> \<bar>real_of_int n\<bar>" by (simp add: pow2_def)
  have nz: "real_of_int n \<noteq> 0" using False by simp
  show ?thesis
    unfolding float_round_def Let_def mx r using nz small by simp
qed

lemma round_half_even_error: "\<bar>of_int (round_half_even y) - y\<bar> \<le> 1 / 2"
proof -
  have "of_int \<lfloor>y\<rfloor> \<le> y" "y < of_int \<lfloor>y\<rfloor> + 1" by linarith+
  then show ?thesis by (auto simp: round_half_even_def)
qed

lemma float_round_error:
  assumes "float_round x = Finite r"
  shows "\<bar>r - x\<bar> \<le> pow2 (max (binary_exponent x) (- 1022) - 52) / 2"
proof (cases "x = 0")
  case True
  then show ?thesis using assms pow2_pos [of "max (binary_exponent x) (- 1022) - 52"]
    by (simp add: float_round_def)
next
  case False
  define p where "p = pow2 (max (binary_exponent x) (- 1022) - 52)"
  define y where "y = x / p"
  have p: "0 < p" unfolding p_def by (rule pow2_pos)
  have r: "r = of_int (round_half_even y) * p"
    using assms False by (simp add: float_round_def Let_def p_def y_def split: if_splits)
  have x: "x = y * p" using p by (simp add: y_def)
  have "r - x = (of_int (round_half_even y) - y) * p"
    by (simp only: r x [symmetric]) (simp add: x left_diff_distrib)
  then have "\<bar>r - x\<bar> = \<bar>of_int (round_half_even y) - y\<bar> * p"
    using p by (simp add: abs_mult)
  also have "\<dots> \<le> 1 / 2 * p"
    using round_half_even_error [of y] p by (intro mult_right_mono) simp_all
  finally show ?thesis by (simp add: p_def)
qed

lemma float_mul_0875: "float_mul 0.875 10 = Finite 8.75"
  by (simp add: float_mul_def float_round_def binary_exponent_def bit_length.simps pow2_def
      round_half_even_def Let_def)

text \<open>The float nearest to 0.3 is \<open>5404319552844595 / 2^54\<close>; its float product with 10 is 3.\<close>

lemma float_mul_03: "float_mul (5404319552844595 / 2 ^ 54) 10 = Finite 3"
  by (simp add: float_mul_def float_round_def binary_exponent_def bit_length.simps pow2_def
      round_half_even_def Let_def)

lemma float_round_quotients:
  "float_round (25 / 10) = Finite 2.5"
  "float_round (3 / 10) = Finite (5404319552844595 / 2 ^ 54)"
  by (simp_all add: float_round_def binary_exponent_def bit_length.simps pow2_def
      round_half_even_def Let_def)

section \<open>The direct adapter: scaling by the coefficient\<close>

lemma hold_time_fields:
  "getter fingerbot_hold_time = None" "setter fingerbot_hold_time = None"
  "dp_id fingerbot_hold_time = 10" "coefficient fingerbot_hold_time = 10"
  "native_min_value (description fingerbot_hold_time) = Some 0"
  by (simp_all add: fingerbot_hold_time_def TuyaBLENumberMapping_init_def
      TuyaBLEHoldTimeDescription_def)

lemma hold_time_number_fields:
  "entity_mapping (hold_time_number dps) = NumberMapping fingerbot_hold_time"
  "tasks (hass (entity (hold_time_number dps))) = []"
  "datapoints (device (entity (hold_time_number dps))) = map_of dps"
  by (simp_all add: hold_time_number_def TuyaBLENumber_init_def device_with_def)

lemma set_native_value_default:
  assumes "entity_mapping self = NumberMapping m" and "setter m = None"
    and "float_mul v (coefficient m) = Finite p"
  shows "scheduled_writes (set_native_value self v) =
           Inr (tasks (hass (entity self)) @ [(dp_id m, IntV (py_int p))])"
  using assms
  by (simp add: set_native_value_def scheduled_writes_def create_task_def float_int_def Let_def)

text \<open>
  Claim C2 as stated fails in its second half: the value written is not rounded. On the
  hold-time descriptor with coefficient 10, setting 0.875 writes 8, while 0.875 times 10
  rounds to 9. (0.875 and 8.75 are binary64 numbers, so the float product is exact here.)
\<close>

theorem C2_counterexample:
  "scheduled_writes (set_native_value (hold_time_number []) 0.875) = Inr [(10, IntV 8)]
   \<and> round (0.875 * coefficient fingerbot_hold_time) = (9 :: int)"
proof -
  have "float_mul 0.875 (coefficient fingerbot_hold_time) = Finite 8.75"
    using float_mul_0875 by (simp add: hold_time_fields)
  from set_native_value_default [OF hold_time_number_fields(1) hold_time_fields(2) this, of "[]"]
  show ?thesis
    by (simp add: hold_time_number_fields hold_time_fields py_int_def round_def)
qed

text \<open>
  Claim C2, amended. For a direct adapter: without a custom getter, with the bound datapoint
  present and holding an integer, and with a coefficient other than zero, \<open>native_value\<close> is
  the float quotient of the stored integer by the coefficient: the integer converted to a
  float \<open>a\<close> (itself, when its magnitude is below \<open>2^53\<close>), and the exact quotient of \<open>a\<close> by
  the coefficient rounded to the nearest binary64 number. Without a custom setter,
  \<open>set_native_value v\<close> takes the float product of \<open>v\<close> and the coefficient, their exact
  product rounded to the nearest binary64 number; when it is finite, one write is scheduled
  to the bound datapoint, of that product truncated towards zero; when it is an infinity,
  OverflowError is raised and nothing is scheduled.
\<close>

theorem C2_direct_adapter_scaling:
  assumes "entity_mapping self = NumberMapping m"
  shows "(getter m = None \<and> datapoints (device (entity self)) (dp_id m) = Some d \<and>
          dp_val d = IntV n \<and> float_round (of_int n) = Finite a \<and> coefficient m \<noteq> 0
            \<longrightarrow> native_value self = Inr (Some (float_round (a / coefficient m)))) \<and>
         (setter m = None
            \<longrightarrow> scheduled_writes (set_native_value self v) =
                  (case float_mul v (coefficient m) of
                     Finite p \<Rightarrow>
                       Inr (tasks (hass (entity self)) @
                            [(dp_id m, IntV (truncate_towards_zero p))])
                   | PlusInfinity \<Rightarrow> Inl OverflowError
                   | MinusInfinity \<Rightarrow> Inl OverflowError))"
  using assms
  by (simp add: native_value_def int_truediv_float_def set_native_value_def
      scheduled_writes_def create_task_def float_int_def Let_def py_int_truncates
      split: float64.splits)

text \<open>
  A stored 25 reads as 2.5 and a stored 3 as the float nearest to 0.3; setting 0.875 writes 8,
  and setting the float nearest to 0.3 writes 3.
\<close>

theorem C2_witness:
  "native_value (hold_time_number [(10, \<lparr>dp_kind = DT_VALUE, dp_val = IntV 25\<rparr>)])
     = Inr (Some (Finite 2.5))
   \<and> native_value (hold_time_number [(10, \<lparr>dp_kind = DT_VALUE, dp_val = IntV 3\<rparr>)])
     = Inr (Some (Finite (5404319552844595 / 2 ^ 54)))
   \<and> scheduled_writes (set_native_value (hold_time_number []) 0.875) = Inr [(10, IntV 8)]
   \<and> scheduled_writes (set_native_value (hold_time_number []) (5404319552844595 / 2 ^ 54))
     = Inr [(10, IntV 3)]"
proof -
  have a25: "float_round (of_int 25) = Finite (of_int 25)"
    and a3: "float_round (of_int 3) = Finite (of_int 3)"
    by (rule float_round_of_int, simp)+
  have m875: "float_mul 0.875 (coefficient fingerbot_hold_time) = Finite 8.75"
    using float_mul_0875 by (simp add: hold_time_fields)
  have m03: "float_mul (5404319552844595 / 2 ^ 54) (coefficient fingerbot_hold_time) = Finite 3"
    using float_mul_03 by (simp add: hold_time_fields)
  have r25: "native_value (hold_time_number [(10, \<lparr>dp_kind = DT_VALUE, dp_val = IntV 25\<rparr>)])
               = Inr (Some (Finite 2.5))"
    using C2_direct_adapter_scaling [OF hold_time_number_fields(1),
        of "[(10, \<lparr>dp_kind = DT_VALUE, dp_val = IntV 25\<rparr>)]"
           "\<lparr>dp_kind = DT_VALUE, dp_val = IntV 25\<rparr>" 25 "of_int 25"] a25 float_round_quotients(1)
    by (simp add: hold_time_fields hold_time_number_fields)
  have r3: "native_value (hold_time_number [(10, \<lparr>dp_kind = DT_VALUE, dp_val = IntV 3\<rparr>)])
               = Inr (Some (Finite (5404319552844595 / 2 ^ 54)))"
    using C2_direct_adapter_scaling [OF hold_time_number_fields(1),
        of "[(10, \<lparr>dp_kind = DT_VALUE, dp_val = IntV 3\<rparr>)]"
           "\<lparr>dp_kind = DT_VALUE, dp_val = IntV 3\<rparr>" 3 "of_int 3"] a3 float_round_quotients(2)
    by (simp add: hold_time_fields hold_time_number_fields)
  have w875: "scheduled_writes (set_native_value (hold_time_number []) 0.875)
               = Inr [(10, IntV 8)]"
    using C2_direct_adapter_scaling [OF hold_time_number_fields(1), of "[]" undefined 0 0 "0.875"]
      m875
    by (simp add: hold_time_fields hold_time_number_fields truncate_towards_zero_def)
  have w03: "scheduled_writes (set_native_value (hold_time_number []) (5404319552844595 / 2 ^ 54))
               = Inr [(10, IntV 3)]"
    using C2_direct_adapter_scaling [OF hold_time_number_fields(1), of "[]" undefined 0 0
        "5404319552844595 / 2 ^ 54"] m03
    by (simp add: hold_time_fields hold_time_number_fields truncate_towards_zero_def)
  show ?thesis using r25 r3 w875 w03 by simp
qed

section \<open>The direct adapter: a datapoint not yet reported\<close>

text \<open>
  Claim C8. For a direct adapter without a custom getter whose datapoint is absent from the
  store, \<open>native_value\<close> returns the minimum that the descriptor configures: a number, not
  \<open>None\<close> and not an exception.
\<close>

theorem C8_missing_datapoint_minimum:
  assumes "entity_mapping self = NumberMapping m" and "getter m = None"
    and "datapoints (device (entity self)) (dp_id m) = None"
    and "native_min_value (description m) = Some lo"
  shows "native_value self = Inr (Some (Finite lo))"
  using assms by (simp add: native_value_def)

theorem C8_witness:
  "native_value (hold_time_number []) = Inr (Some (Finite 0))"
  using C8_missing_datapoint_minimum [OF hold_time_number_fields(1) hold_time_fields(1) _
      hold_time_fields(5), of "[]"]
  by (simp add: hold_time_number_fields hold_time_fields)

section \<open>Resolving a device\<close>

text \<open>
  Claim C5. For any table and device: when the category is in the table and its product map
  has the product id, the result is the list configured there; when the product map lacks
  the product id and the category has a fallback list, the result is the fallback list; in
  every case where neither applies the result is empty. \<open>get_mapping_by_device\<close> is this
  lookup in the module's table.
\<close>

theorem C5_get_mapping_by_device:
  "(\<forall>cat ps l. table (category dev) = Some cat \<and> products cat = Some ps \<and>
        ps (product_id dev) = Some l
      \<longrightarrow> get_mapping_by_device_in table dev = l) \<and>
   (\<forall>cat ps l. table (category dev) = Some cat \<and> products cat = Some ps \<and>
        ps (product_id dev) = None \<and> fallback cat = Some l
      \<longrightarrow> get_mapping_by_device_in table dev = l) \<and>
   ((\<forall>cat ps. table (category dev) = Some cat \<and> products cat = Some ps
        \<longrightarrow> ps (product_id dev) = None \<and> fallback cat = None)
      \<longrightarrow> get_mapping_by_device_in table dev = []) \<and>
   get_mapping_by_device dev = get_mapping_by_device_in mapping dev"
  by (auto simp: get_mapping_by_device_in_def get_mapping_by_device_def split: option.splits)

text \<open>A known product, an unknown product of a category with a fallback, an unknown category.\<close>

theorem C5_witness:
  "get_mapping_by_device_in sample_table (device_with ''szjqr'' ''3yqdo5yt'' [])
     = [NumberMapping (TuyaBLEHoldTimeMapping 3)]
   \<and> get_mapping_by_device_in sample_table (device_with ''szjqr'' ''unknown1'' [])
     = [NumberMapping (TuyaBLEHoldTimeMapping 10)]
   \<and> get_mapping_by_device_in sample_table (device_with ''nocat'' ''3yqdo5yt'' []) = []"
proof -
  let ?cat = "\<lparr>products = Some (py_dict [(''3yqdo5yt'', [NumberMapping (TuyaBLEHoldTimeMapping 3)])]),
                fallback = Some [NumberMapping (TuyaBLEHoldTimeMapping 10)]\<rparr>"
  have t: "sample_table ''szjqr'' = Some ?cat" "sample_table ''nocat'' = None"
    by (simp_all add: sample_table_def py_dict_def)
  have p: "py_dict [(''3yqdo5yt'', [NumberMapping (TuyaBLEHoldTimeMapping 3)])] ''3yqdo5yt''
             = Some [NumberMapping (TuyaBLEHoldTimeMapping 3)]"
     "py_dict [(''3yqdo5yt'', [NumberMapping (TuyaBLEHoldTimeMapping 3)])] ''unknown1'' = None"
    by (simp_all add: py_dict_def)
  have d: "category (device_with c q []) = c" "product_id (device_with c q []) = q" for c q
    by (simp_all add: device_with_def)
  show ?thesis
    using C5_get_mapping_by_device [of sample_table "device_with ''szjqr'' ''3yqdo5yt'' []"]
      C5_get_mapping_by_device [of sample_table "device_with ''szjqr'' ''unknown1'' []"]
      C5_get_mapping_by_device [of sample_table "device_with ''nocat'' ''3yqdo5yt'' []"]
    by (simp add: t p d)
qed

section \<open>The product key defined twice\<close>

lemma foldl_upd_in:
  "foldl (\<lambda>m kv. m(fst kv \<mapsto> snd kv)) m0 items k = Some v \<Longrightarrow>
     m0 k = Some v \<or> (k, v) \<in> set items"
proof (induction items arbitrary: m0)
  case Nil
  then show ?case by simp
next
  case (Cons a items)
  have "foldl (\<lambda>m kv. m(fst kv \<mapsto> snd kv)) (m0(fst a \<mapsto> snd a)) items k = Some v"
    using Cons.prems by (simp only: foldl.simps)
  from Cons.IH [OF this] show ?case
    by (cases a) (auto split: if_splits)
qed

lemma py_dict_in: "py_dict items k = Some v \<Longrightarrow> (k, v) \<in> set items"
  using foldl_upd_in [of Map.empty items k v] by (simp add: py_dict_def)

lemmas descriptor_defs = TuyaBLENumberMapping_init_def TuyaBLEVirtualNumberMapping_init_def
  TuyaBLEHoldTimeMapping_def program_repeats_count_def program_idle_position_def
  countdown_description_def description_of_def TuyaBLEDownPositionDescription_def
  TuyaBLEUpPositionDescription_def TuyaBLEHoldTimeDescription_def watering_duration_def

lemma no_replaced_sfkzq: "no_replaced sfkzq_products"
  by (simp add: no_replaced_def descriptor_keys_def replaced_keys_def sfkzq_products_def
      descriptor_defs)

lemma no_replaced_co2bj: "no_replaced co2bj_products"
  by (simp add: no_replaced_def descriptor_keys_def replaced_keys_def co2bj_products_def
      descriptor_defs)

lemma no_replaced_szjqr: "no_replaced szjqr_products"
  by (simp add: no_replaced_def descriptor_keys_def replaced_keys_def szjqr_products_def
      dict_fromkeys_def descriptor_defs)

lemma no_replaced_kg: "no_replaced kg_products"
  by (simp add: no_replaced_def descriptor_keys_def replaced_keys_def kg_products_def
      dict_fromkeys_def descriptor_defs)

lemma no_replaced_wk: "no_replaced wk_products"
  by (simp add: no_replaced_def descriptor_keys_def replaced_keys_def wk_products_def
      dict_fromkeys_def descriptor_defs)

lemma no_replaced_wsdcg: "no_replaced wsdcg_products"
  by (simp add: no_replaced_def descriptor_keys_def replaced_keys_def wsdcg_products_def
      descriptor_defs)

lemma no_replaced_znhsb: "no_replaced znhsb_products"
  by (simp add: no_replaced_def descriptor_keys_def replaced_keys_def znhsb_products_def
      descriptor_defs)

lemma no_replaced_lookup:
  "no_replaced items \<Longrightarrow> py_dict items pid = Some l \<Longrightarrow>
     set (descriptor_keys l) \<inter> replaced_keys = {}"
  using py_dict_in [of items pid l] by (fastforce simp: no_replaced_def)

text \<open>In the product map of category ggq only the first and the third item can be looked up.\<close>

lemma py_dict_ggq:
  "py_dict ggq_products pid = Some l \<Longrightarrow>
     l = snd (ggq_products ! 0) \<or> l = snd (ggq_products ! 2)"
  by (auto simp: py_dict_def ggq_products_def split: if_splits)

lemma py_dict_ggq_hfgdqhho: "py_dict ggq_products ''hfgdqhho'' = Some (snd (ggq_products ! 2))"
  by (simp add: py_dict_def ggq_products_def)

lemma ggq_keys:
  "descriptor_keys (snd (ggq_products ! 0)) = [''countdown_duration'']"
  "descriptor_keys (snd (ggq_products ! 1)) = [''countdown_duration_1'', ''countdown_duration_2'']"
  "descriptor_keys (snd (ggq_products ! 2)) = [''countdown_duration_z1'', ''countdown_duration_z2'']"
  by (simp_all add: ggq_products_def descriptor_keys_def descriptor_defs)

lemma ggq_dp_ids: "descriptor_dp_ids (snd (ggq_products ! 2)) = [Inr 106, Inr 103]"
  by (simp add: ggq_products_def descriptor_dp_ids_def descriptor_defs)

lemma mapping_ggq: "mapping ''ggq'' = Some (category_of_products ggq_products)"
  by (simp add: mapping_def mapping_items_def py_dict_def)

lemma mapping_cases:
  assumes "mapping c = Some cat"
  shows "cat \<in> category_of_products `
           {sfkzq_products, co2bj_products, szjqr_products, kg_products, wk_products,
            wsdcg_products, znhsb_products, ggq_products}"
proof -
  have "(c, cat) \<in> set mapping_items" using assms by (simp add: mapping_def py_dict_in)
  then show ?thesis by (auto simp: mapping_items_def)
qed

lemma reachable_keys:
  "set (descriptor_keys (get_mapping_by_device dev)) \<inter> replaced_keys = {}"
proof (cases "mapping (category dev)")
  case None
  then show ?thesis
    by (simp add: get_mapping_by_device_def get_mapping_by_device_in_def descriptor_keys_def)
next
  case (Some cat)
  then obtain items where cat: "cat = category_of_products items"
    and items: "items \<in> {sfkzq_products, co2bj_products, szjqr_products, kg_products,
        wk_products, wsdcg_products, znhsb_products, ggq_products}"
    using mapping_cases by blast
  show ?thesis
  proof (cases "py_dict items (product_id dev)")
    case None
    then show ?thesis using Some cat
      by (simp add: get_mapping_by_device_def get_mapping_by_device_in_def
          category_of_products_def descriptor_keys_def)
  next
    case (Some l)
    have res: "get_mapping_by_device dev = l"
      using Some \<open>mapping (category dev) = Some cat\<close> cat
      by (simp add: get_mapping_by_device_def get_mapping_by_device_in_def
          category_of_products_def)
    have "set (descriptor_keys l) \<inter> replaced_keys = {}"
    proof (cases "items = ggq_products")
      case True
      then have "l = snd (ggq_products ! 0) \<or> l = snd (ggq_products ! 2)"
        using Some py_dict_ggq by simp
      then show ?thesis using ggq_keys by (auto simp: replaced_keys_def)
    next
      case False
      then have "no_replaced items"
        using items no_replaced_sfkzq no_replaced_co2bj no_replaced_szjqr no_replaced_kg
          no_replaced_wk no_replaced_wsdcg no_replaced_znhsb by auto
      then show ?thesis using Some by (rule no_replaced_lookup)
    qed
    then show ?thesis using res by simp
  qed
qed

text \<open>
  Claim C9. The product map of category ggq is written with three items, the second and the
  third both under the key hfgdqhho and with different descriptor lists (keys
  countdown\_duration\_1, countdown\_duration\_2 against countdown\_duration\_z1,
  countdown\_duration\_z2). A device of category ggq and product hfgdqhho resolves to the third
  item's list, two descriptors on the datapoints 106 and 103. No device at all resolves to a
  list that holds a descriptor with key countdown\_duration\_1 or countdown\_duration\_2.
\<close>

theorem C9_duplicate_product_key:
  "map fst ggq_products = [''6pahkcau'', ''hfgdqhho'', ''hfgdqhho''] \<and>
   descriptor_keys (snd (ggq_products ! 1)) = [''countdown_duration_1'', ''countdown_duration_2''] \<and>
   descriptor_keys (snd (ggq_products ! 2)) = [''countdown_duration_z1'', ''countdown_duration_z2''] \<and>
   (category dev = ''ggq'' \<and> product_id dev = ''hfgdqhho''
      \<longrightarrow> get_mapping_by_device dev = snd (ggq_products ! 2) \<and>
          descriptor_keys (get_mapping_by_device dev)
            = [''countdown_duration_z1'', ''countdown_duration_z2''] \<and>
          descriptor_dp_ids (get_mapping_by_device dev) = [Inr 106, Inr 103]) \<and>
   set (descriptor_keys (get_mapping_by_device any_dev)) \<inter> replaced_keys = {}"
proof -
  have "map fst ggq_products = [''6pahkcau'', ''hfgdqhho'', ''hfgdqhho'']"
    by (simp add: ggq_products_def)
  moreover have "get_mapping_by_device dev = snd (ggq_products ! 2)"
    if "category dev = ''ggq''" "product_id dev = ''hfgdqhho''"
    using that
    by (simp add: get_mapping_by_device_def get_mapping_by_device_in_def mapping_ggq
        category_of_products_def py_dict_ggq_hfgdqhho)
  ultimately show ?thesis
    using ggq_keys ggq_dp_ids reachable_keys by simp
qed

theorem C9_witness:
  "descriptor_keys (get_mapping_by_device (device_with ''ggq'' ''hfgdqhho'' []))
     = [''countdown_duration_z1'', ''countdown_duration_z2'']
   \<and> descriptor_dp_ids (get_mapping_by_device (device_with ''ggq'' ''hfgdqhho'' []))
     = [Inr 106, Inr 103]"
proof -
  have c: "category (device_with ''ggq'' ''hfgdqhho'' []) = ''ggq''
           \<and> product_id (device_with ''ggq'' ''hfgdqhho'' []) = ''hfgdqhho''"
    by (simp add: device_with_def)
  from C9_duplicate_product_key [of "device_with ''ggq'' ''hfgdqhho'' []"
      "device_with ''ggq'' ''hfgdqhho'' []"] c
  show ?thesis by blast
qed

section \<open>Setup builds the datapoint-bound adapter for every descriptor\<close>

lemma setup_entities_numbers:
  "setup_entities h data ms = Inr es \<Longrightarrow>
     \<forall>e \<in> set es. \<exists>m \<in> set ms.
        e = Number (TuyaBLENumber_init h (data_device data) (data_product data) m)"
proof (induction ms arbitrary: es)
  case Nil
  then show ?case by simp
next
  case (Cons m ms)
  then show ?case
    by (auto split: sum.splits if_splits)
qed

lemma setup_entities_forced:
  "setup_entities h data ms = Inr es \<Longrightarrow> m \<in> set ms \<Longrightarrow> mapping_force_add m \<Longrightarrow>
     Number (TuyaBLENumber_init h (data_device data) (data_product data) m) \<in> set es"
proof (induction ms arbitrary: es)
  case Nil
  then show ?case by simp
next
  case (Cons a ms)
  then show ?case
    by (auto simp: add_condition_def split: sum.splits if_splits)
qed

lemma native_value_virtual:
  "v_getter vm = None \<Longrightarrow>
     native_value (TuyaBLENumber_init h d p (VirtualNumberMapping vm)) = Inl AttributeError"
  by (simp add: native_value_def TuyaBLENumber_init_def)

lemma mapping_sfkzq: "mapping ''sfkzq'' = Some (category_of_products sfkzq_products)"
  by (simp add: mapping_def mapping_items_def py_dict_def)

lemma water_valve_mappings:
  "get_mapping_by_device (data_device water_valve) = snd (sfkzq_products ! 0)"
  by (simp add: get_mapping_by_device_def get_mapping_by_device_in_def mapping_sfkzq
      category_of_products_def water_valve_def device_with_def py_dict_def sfkzq_products_def)

lemma watering_duration_fields:
  "v_force_add watering_duration" "v_getter watering_duration = None"
  "default_value watering_duration = 900"
  "key (v_description watering_duration) = ''watering_duration''"
  by (simp_all add: watering_duration_def TuyaBLEVirtualNumberMapping_init_def description_of_def)

lemma water_valve_setup:
  "async_setup_entry \<lparr>tasks = []\<rparr> water_valve =
     Inr (map (\<lambda>m. Number (TuyaBLENumber_init \<lparr>tasks = []\<rparr> (data_device water_valve)
                               (data_product water_valve) m))
            (snd (sfkzq_products ! 0)))"
  by (simp add: async_setup_entry_def water_valve_mappings sfkzq_products_def add_condition_def
      watering_duration_fields TuyaBLENumberMapping_init_def)

text \<open>
  Claim C10. When \<open>async_setup_entry\<close> returns its entities, each of them is a
  \<open>TuyaBLENumber\<close> built from a descriptor of the resolved list, so none is a
  \<open>TuyaBLEVirtualNumber\<close>. Every virtual descriptor of the list whose \<open>force_add\<close> is true
  is among them, wrapped in a \<open>TuyaBLENumber\<close>; and if that descriptor has no custom getter,
  reading \<open>native_value\<close> of the adapter raises AttributeError, for the descriptor has no
  \<open>dp_id\<close>.
\<close>

theorem C10_setup_wraps_virtual_descriptors:
  assumes "async_setup_entry h data = Inr es"
  shows "(\<forall>e \<in> set es. \<exists>m \<in> set (get_mapping_by_device (data_device data)).
            e = Number (TuyaBLENumber_init h (data_device data) (data_product data) m)) \<and>
         (\<forall>vm. VirtualNumberMapping vm \<in> set (get_mapping_by_device (data_device data)) \<and>
               v_force_add vm
            \<longrightarrow> Number (TuyaBLENumber_init h (data_device data) (data_product data)
                          (VirtualNumberMapping vm)) \<in> set es \<and>
                (v_getter vm = None
                   \<longrightarrow> native_value (TuyaBLENumber_init h (data_device data) (data_product data)
                          (VirtualNumberMapping vm)) = Inl AttributeError))"
proof -
  have ms: "setup_entities h data (get_mapping_by_device (data_device data)) = Inr es"
    using assms by (simp add: async_setup_entry_def)
  have numbers: "\<forall>e \<in> set es. \<exists>m \<in> set (get_mapping_by_device (data_device data)).
            e = Number (TuyaBLENumber_init h (data_device data) (data_product data) m)"
    using ms by (rule setup_entities_numbers)
  have forced: "Number (TuyaBLENumber_init h (data_device data) (data_product data)
                          (VirtualNumberMapping vm)) \<in> set es"
    if "VirtualNumberMapping vm \<in> set (get_mapping_by_device (data_device data))"
      and "v_force_add vm" for vm
    using setup_entities_forced [OF ms that(1)] that(2) by simp
  show ?thesis using numbers forced native_value_virtual by blast
qed

text \<open>
  The water valve (category sfkzq, product nxquc5lb): setup returns three adapters, the third
  built from the watering\_duration descriptor, and reading its value raises AttributeError.
\<close>

theorem C10_witness:
  "(\<exists>es. async_setup_entry \<lparr>tasks = []\<rparr> water_valve = Inr es \<and> length es = 3 \<and>
      es ! 2 = Number (TuyaBLENumber_init \<lparr>tasks = []\<rparr> (data_device water_valve)
                         (data_product water_valve) (VirtualNumberMapping watering_duration)))
   \<and> native_value (TuyaBLENumber_init \<lparr>tasks = []\<rparr> (data_device water_valve)
                         (data_product water_valve) (VirtualNumberMapping watering_duration))
       = Inl AttributeError"
proof -
  have m: "VirtualNumberMapping watering_duration
             \<in> set (get_mapping_by_device (data_device water_valve))"
    by (simp add: water_valve_mappings sfkzq_products_def)
  from C10_setup_wraps_virtual_descriptors [OF water_valve_setup] m watering_duration_fields(1,2)
  have "native_value (TuyaBLENumber_init \<lparr>tasks = []\<rparr> (data_device water_valve)
                         (data_product water_valve) (VirtualNumberMapping watering_duration))
       = Inl AttributeError" by blast
  moreover have "length (snd (sfkzq_products ! 0)) = 3"
      "snd (sfkzq_products ! 0) ! 2 = VirtualNumberMapping watering_duration"
    by (simp_all add: sfkzq_products_def)
  ultimately show ?thesis using water_valve_setup by simp
qed

section \<open>The virtual adapter and its local record\<close>

lemma os_unbound: "load_name ''os'' = Inl NameError"
  by (simp add: load_name_def module_globals_def)

text \<open>
  Claim C6 does not hold of the code. A virtual adapter created with default 900 has the
  value 900. Setting 120 updates the value in memory and publishes it, then evaluates
  \<^verbatim>\<open>os.path.join\<close> and raises NameError before any file is opened, so no local record is
  written. After a restart in which the host kept no state, and even with a local record
  holding 120 in place, activation evaluates \<^verbatim>\<open>os.makedirs\<close> and raises NameError before
  the record is read: the value is 900, not 120.
\<close>

theorem C6_local_record_never_used:
  "attr_native_value valve_number = 900
   \<and> async_set_native_value (valve_host Map.empty) valve_number 120
       = (Some NameError, valve_number\<lparr>attr_native_value := 120\<rparr>,
          (valve_host Map.empty)\<lparr>written_states := [120]\<rparr>)
   \<and> async_added_to_hass (\<lambda>s. None)
        (valve_host [storage_file (valve_host Map.empty) valve_number
                       \<mapsto> Some (JObject [(''value'', JNumber 120)])])
        valve_number
       = (Some NameError, valve_number)"
  by (simp add: async_set_native_value_def async_added_to_hass_def os_unbound
      restore_last_state_def valve_host_def valve_number_def TuyaBLEVirtualNumber_init_def
      watering_duration_fields Let_def)

end
